theory Spec2Isabelle
  imports Main
begin

section \<open>Data model of the webrsync sync module\<close>

text \<open>
  The module \<^verbatim>\<open>lib/portage/sync/modules/webrsync/webrsync.py\<close> wraps the external
  \<^verbatim>\<open>emerge-webrsync\<close> / \<^verbatim>\<open>emerge-delta-webrsync\<close> binaries. Its two classes,
  \<^verbatim>\<open>WebRsync\<close> and \<^verbatim>\<open>PyWebRsync\<close>, are embedded below. Mutation of \<^verbatim>\<open>self\<close> is
  explicit state passing, every call that leaves the module is recorded as an
  event, and an exception that leaves \<^verbatim>\<open>sync\<close> is the \<open>Inl\<close> branch of its result.
\<close>

text \<open>
  Exceptions. The \<^verbatim>\<open>except\<close> clause of \<^verbatim>\<open>sync\<close> names \<^verbatim>\<open>GematoException\<close> and
  \<^verbatim>\<open>asyncio.TimeoutError\<close>; \<^verbatim>\<open>PyWebRsync.sync\<close> raises \<^verbatim>\<open>NotImplementedError\<close>;
  \<^verbatim>\<open>open\<close> raises \<^verbatim>\<open>OSError\<close>. A constructor stands for the most specific of these
  classes an exception belongs to; its argument is the text of \<^verbatim>\<open>str(e)\<close>.
\<close>

datatype exn =
    GematoException string
  | TimeoutError string
  | OSError string
  | NotImplementedError string

fun exn_str :: "exn \<Rightarrow> string" where
  "exn_str (GematoException m) = m"
| "exn_str (TimeoutError m) = m"
| "exn_str (OSError m) = m"
| "exn_str (NotImplementedError m) = m"

text \<open>\<^verbatim>\<open>except (GematoException, asyncio.TimeoutError) as e\<close>: the exceptions it catches.\<close>

fun caught :: "exn \<Rightarrow> bool" where
  "caught (GematoException m) = True"
| "caught (TimeoutError m) = True"
| "caught (OSError m) = False"
| "caught (NotImplementedError m) = False"

text \<open>The keyring handle returned by \<^verbatim>\<open>_get_openpgp_env\<close>; \<^verbatim>\<open>sync\<close> reads its \<^verbatim>\<open>home\<close>.\<close>

datatype openpgp_env = OpenPGPEnvironment (home: string)

text \<open>\<^verbatim>\<open>self.repo\<close>: the three attributes the module reads.\<close>

record repo_config =
  module_specific_options :: "string \<rightharpoonup> string"
  sync_openpgp_key_path :: "string option"
  location :: string

text \<open>
  \<^verbatim>\<open>self.spawn_kwargs\<close>: the keyword dictionary handed to \<^verbatim>\<open>portage.process.spawn\<close>.
  The keys the module touches are fields; an absent key is \<open>None\<close>. The caller
  always supplies the \<^verbatim>\<open>env\<close> dictionary, so it is a map of its own.
\<close>

record spawn_kw =
  uid :: "int option"
  gid :: "int option"
  groups :: "int list option"
  env :: "string \<rightharpoonup> string"

text \<open>
  The \<^verbatim>\<open>WebRsync\<close> instance. \<open>p_bin_command\<close> is the attribute \<^verbatim>\<open>self._bin_command\<close>
  (an Isabelle name cannot start with an underscore); \<open>bin_command\<close> is \<open>None\<close> when
  \<^verbatim>\<open>find_binary\<close> found nothing; \<open>emerge_opts\<close> is \<^verbatim>\<open>self.options["emerge_config"].opts\<close>.
\<close>

record webrsync =
  p_bin_command :: string
  bin_command :: "string option"
  bin_pkg :: string
  repo :: repo_config
  emerge_opts :: "string list"
  spawn_kwargs :: spawn_kw
  xterm_titles :: bool

text \<open>Calls that leave the module, in the order they are made.\<close>

datatype event =
    FindBinary string
  | Writemsg string
  | Einfo bool string
  | Logger bool string
  | Alloc openpgp_env
  | OpenFile string
  | ImportKey openpgp_env string
  | RefreshKeys openpgp_env
  | Spawn "string option list" spawn_kw
  | Close openpgp_env

text \<open>
  The collaborators of the module, none of which is defined in it: \<^verbatim>\<open>SyncBase\<close>
  (\<^verbatim>\<open>_kwargs\<close>, the inherited \<^verbatim>\<open>has_bin\<close>, \<^verbatim>\<open>_get_openpgp_env\<close>, \<^verbatim>\<open>_refresh_keys\<close>),
  \<^verbatim>\<open>portage.process\<close> (\<^verbatim>\<open>find_binary\<close>, \<^verbatim>\<open>spawn\<close>), \<^verbatim>\<open>os.path.isfile\<close>, \<^verbatim>\<open>open\<close>, and
  gemato (\<^verbatim>\<open>import_key\<close>; \<open>gemato_present\<close> is \<^verbatim>\<open>gemato is not None\<close>). They are
  parameters. The calls that \<^verbatim>\<open>sync\<close> makes inside its \<^verbatim>\<open>try\<close> statement may raise:
  \<^verbatim>\<open>_get_openpgp_env\<close>, \<^verbatim>\<open>open\<close>, \<^verbatim>\<open>import_key\<close>, \<^verbatim>\<open>_refresh_keys\<close>, \<^verbatim>\<open>spawn\<close>, and
  \<^verbatim>\<open>openpgp_env.close\<close> in the \<^verbatim>\<open>finally\<close> clause. The inherited \<^verbatim>\<open>has_bin\<close> reads the
  instance and yields a truth value; \<^verbatim>\<open>_kwargs\<close>, \<^verbatim>\<open>find_binary\<close>, \<^verbatim>\<open>isfile\<close> and the
  output functions return. \<^verbatim>\<open>open\<close> yields the contents of the file.
\<close>

record 'k world =
  kwargs_update :: "'k \<Rightarrow> webrsync \<Rightarrow> webrsync"
  find_binary :: "string \<Rightarrow> string option"
  super_has_bin :: "webrsync \<Rightarrow> bool"
  isfile :: "string \<Rightarrow> bool"
  gemato_present :: bool
  get_openpgp_env :: "webrsync \<Rightarrow> string \<Rightarrow> exn + openpgp_env"
  open_rb :: "string \<Rightarrow> exn + string"
  import_key :: "openpgp_env \<Rightarrow> string \<Rightarrow> exn + unit"
  refresh_keys :: "webrsync \<Rightarrow> openpgp_env \<Rightarrow> exn + unit"
  spawn :: "string option list \<Rightarrow> spawn_kw \<Rightarrow> exn + int"
  close :: "openpgp_env \<Rightarrow> exn + unit"

text \<open>What one call of \<^verbatim>\<open>sync\<close> does: its result, the instance afterwards, the calls made.\<close>

record outcome =
  result :: "exn + int \<times> bool"
  final :: webrsync
  trace :: "event list"

text \<open>Reading a trace: the keyrings allocated, those closed, the processes spawned,
  the messages given to \<^verbatim>\<open>self.logger\<close> and those written by \<^verbatim>\<open>writemsg_level\<close>.\<close>

fun allocs :: "event list \<Rightarrow> openpgp_env list" where
  "allocs [] = []"
| "allocs (Alloc e # t) = e # allocs t"
| "allocs (x # t) = allocs t"

fun closes :: "event list \<Rightarrow> openpgp_env list" where
  "closes [] = []"
| "closes (Close e # t) = e # closes t"
| "closes (x # t) = closes t"

fun spawned :: "event list \<Rightarrow> (string option list \<times> spawn_kw) list" where
  "spawned [] = []"
| "spawned (Spawn c k # t) = (c, k) # spawned t"
| "spawned (x # t) = spawned t"

fun logged :: "event list \<Rightarrow> string list" where
  "logged [] = []"
| "logged (Logger b m # t) = m # logged t"
| "logged (x # t) = logged t"

fun written :: "event list \<Rightarrow> string list" where
  "written [] = []"
| "written (Writemsg m # t) = m # written t"
| "written (x # t) = written t"

section \<open>Module options\<close>

text \<open>
  \<^verbatim>\<open>str.lower\<close>. A character is a code point below 256; the letters
  \<^verbatim>\<open>A\<close>..\<^verbatim>\<open>Z\<close> and the Latin-1 capitals move by 32, as Python moves them. Of the
  code points beyond 255, Python lowers none to a letter of \<^verbatim>\<open>true\<close> or \<^verbatim>\<open>yes\<close>.
\<close>

definition lower_char :: "char \<Rightarrow> char" where
  "lower_char c =
     (let n = (of_char c :: nat)
      in if (65 \<le> n \<and> n \<le> 90) \<or> (192 \<le> n \<and> n \<le> 222 \<and> n \<noteq> 215)
         then char_of (n + 32) else c)"

definition lower :: "string \<Rightarrow> string" where
  "lower s = map lower_char s"

text \<open>\<^verbatim>\<open>d.get(key, default)\<close>.\<close>

definition dict_get :: "('a \<rightharpoonup> 'b) \<Rightarrow> 'a \<Rightarrow> 'b \<Rightarrow> 'b" where
  "dict_get d k dflt = (case d k of None \<Rightarrow> dflt | Some v \<Rightarrow> v)"

text \<open>
  \<^verbatim>\<open>self.repo.module_specific_options.get(key, "false").lower() in ("true", "yes")\<close>,
  the test the module writes three times: for \<^verbatim>\<open>sync-webrsync-delta\<close> in \<^verbatim>\<open>has_bin\<close>, for
  \<^verbatim>\<open>sync-webrsync-verify-signature\<close> and \<^verbatim>\<open>sync-webrsync-keep-snapshots\<close> in \<^verbatim>\<open>sync\<close>.
\<close>

definition opt_enabled :: "(string \<rightharpoonup> string) \<Rightarrow> string \<Rightarrow> bool" where
  "opt_enabled opts key = (lower (dict_get opts key ''false'') \<in> set [''true'', ''yes''])"

text \<open>
  Equality of two strings up to the case of ASCII letters, stated without \<open>lower\<close>:
  the strings have the same length, and at each position the characters are equal
  or are the capital and the small form of one letter.
\<close>

definition case_pair :: "char \<Rightarrow> char \<Rightarrow> bool" where
  "case_pair c d =
     (65 \<le> (of_char c :: nat) \<and> (of_char c :: nat) \<le> 90 \<and> (of_char d :: nat) = of_char c + 32)"

definition ci_equal :: "string \<Rightarrow> string \<Rightarrow> bool" where
  "ci_equal a b = list_all2 (\<lambda>c d. c = d \<or> case_pair c d \<or> case_pair d c) a b"

section \<open>WebRsync\<close>

subsection \<open>The property has_bin\<close>

definition has_bin :: "'k world \<Rightarrow> webrsync \<Rightarrow> bool \<times> webrsync \<times> event list" where
  "has_bin w s =
     (if p_bin_command s \<noteq> ''emerge-delta-webrsync''
         \<and> opt_enabled (module_specific_options (repo s)) ''sync-webrsync-delta''
      then
        (let s' = s\<lparr>p_bin_command := ''emerge-delta-webrsync'',
                    bin_command := find_binary w ''emerge-delta-webrsync'',
                    bin_pkg := ''>=app-portage/emerge-delta-webrsync-3.7.5''\<rparr>
         in (super_has_bin w s', s', [FindBinary ''emerge-delta-webrsync'']))
      else (super_has_bin w s, s, []))"

text \<open>
  A sequence of reads of \<open>has_bin\<close> on one instance; before each read \<^verbatim>\<open>self.repo\<close>
  is whatever the caller has made it by then. The events of all reads are collected.
\<close>

fun has_bin_reads :: "'k world \<Rightarrow> repo_config list \<Rightarrow> webrsync \<Rightarrow> webrsync \<times> event list" where
  "has_bin_reads w [] s = (s, [])"
| "has_bin_reads w (r # rs) s =
     (case has_bin w (s\<lparr>repo := r\<rparr>) of
        (b, s1, t1) \<Rightarrow> (case has_bin_reads w rs s1 of (s2, t2) \<Rightarrow> (s2, t1 @ t2)))"

fun is_find_binary :: "event \<Rightarrow> bool" where
  "is_find_binary (FindBinary b) = True"
| "is_find_binary e = False"

subsection \<open>The command vector\<close>

text \<open>
  Lines 120 to 129 of \<^verbatim>\<open>sync\<close>: \<^verbatim>\<open>webrsync_cmd = [self.bin_command]\<close>, then \<^verbatim>\<open>-v\<close> if
  verbose, else \<^verbatim>\<open>-q\<close> if quiet, then \<^verbatim>\<open>-k\<close> if keep-snapshots is enabled.
\<close>

definition webrsync_cmd :: "string option \<Rightarrow> bool \<Rightarrow> bool \<Rightarrow> bool \<Rightarrow> string option list" where
  "webrsync_cmd bin verbose quiet keep =
     (let cmd = [bin];
          cmd = (if verbose then cmd @ [Some ''-v'']
                 else if quiet then cmd @ [Some ''-q''] else cmd);
          cmd = (if keep then cmd @ [Some ''-k''] else cmd)
      in cmd)"

subsection \<open>sync\<close>

text \<open>
  The handler of the inner \<^verbatim>\<open>try\<close> (lines 112 to 118), applied to an exception raised
  inside it: a caught exception is reported and becomes \<^verbatim>\<open>return (1, False)\<close>, any other
  leaves \<^verbatim>\<open>sync\<close>. The first component is the exit the function takes, if it takes one here.
\<close>

definition keyring_except ::
  "exn \<Rightarrow> openpgp_env \<Rightarrow> webrsync \<Rightarrow> event list
   \<Rightarrow> (exn + int \<times> bool) option \<times> openpgp_env option \<times> webrsync \<times> event list" where
  "keyring_except e oenv s t =
     (if caught e
      then (Some (Inr (1, False)), Some oenv, s,
            t @ [Writemsg (''!!! Verification impossible due to keyring problem:'' @ [CHR 0x0A]
                           @ exn_str e @ [CHR 0x0A])])
      else (Some (Inl e), Some oenv, s, t))"

text \<open>Lines 104 to 118: the keyring has been allocated; import the key and refresh.\<close>

definition sync_keys ::
  "'k world \<Rightarrow> bool \<Rightarrow> webrsync \<Rightarrow> string \<Rightarrow> openpgp_env
   \<Rightarrow> (exn + int \<times> bool) option \<times> openpgp_env option \<times> webrsync \<times> event list" where
  "sync_keys w quiet s path oenv =
     (let t0 = [Alloc oenv, Einfo quiet (''Using keys from '' @ path), OpenFile path]
      in case open_rb w path of
           Inl e \<Rightarrow> keyring_except e oenv s t0
         | Inr f \<Rightarrow>
            (case import_key w oenv f of
               Inl e \<Rightarrow> keyring_except e oenv s (t0 @ [ImportKey oenv f])
             | Inr u \<Rightarrow>
                (case refresh_keys w s oenv of
                   Inl e \<Rightarrow> keyring_except e oenv s (t0 @ [ImportKey oenv f, RefreshKeys oenv])
                 | Inr u' \<Rightarrow>
                    (None, Some oenv,
                     s\<lparr>spawn_kwargs := (spawn_kwargs s)
                         \<lparr>env := (env (spawn_kwargs s))
                            (''PORTAGE_GPG_DIR'' \<mapsto> home oenv,
                             ''PORTAGE_TEMP_GPG_DIR'' \<mapsto> home oenv)\<rparr>\<rparr>,
                     t0 @ [ImportKey oenv f, RefreshKeys oenv]))))"

text \<open>
  Lines 74 to 118: the verification block. It yields the exit taken inside it (if any),
  the value of the local \<^verbatim>\<open>openpgp_env\<close>, the instance and the calls made.
  \<^verbatim>\<open>not self.repo.sync_openpgp_key_path\<close> holds for \<^verbatim>\<open>None\<close> and for the empty string.
\<close>

definition sync_verify ::
  "'k world \<Rightarrow> bool \<Rightarrow> webrsync
   \<Rightarrow> (exn + int \<times> bool) option \<times> openpgp_env option \<times> webrsync \<times> event list" where
  "sync_verify w quiet s =
     (if opt_enabled (module_specific_options (repo s)) ''sync-webrsync-verify-signature''
      then
        (if (case sync_openpgp_key_path (repo s) of None \<Rightarrow> True | Some p \<Rightarrow> p = [])
         then (Some (Inr (1, False)), None, s,
               [Writemsg (''!!! sync-openpgp-key-path is not set'' @ [CHR 0x0A])])
         else
           (let path = (case sync_openpgp_key_path (repo s) of None \<Rightarrow> [] | Some p \<Rightarrow> p)
            in if \<not> isfile w path
               then (Some (Inr (1, False)), None, s,
                     [Writemsg (''!!! sync-openpgp-key-path file not found: '' @ path
                                @ [CHR 0x0A])])
               else if \<not> gemato_present w
               then (Some (Inr (1, False)), None, s,
                     [Writemsg (''!!! Verifying against specified key requires gemato-14.5+ installed''
                                @ [CHR 0x0A])])
               else (case get_openpgp_env w s path of
                       Inl e \<Rightarrow> (Some (Inl e), None, s, [])
                     | Inr oenv \<Rightarrow> sync_keys w quiet s path oenv)))
      else (None, None, s, []))"

text \<open>
  Lines 73 to 137: the body of the outer \<^verbatim>\<open>try\<close>. \<^verbatim>\<open>os.EX_OK\<close> is 0. It yields the
  result, the value of \<^verbatim>\<open>openpgp_env\<close> when the body is left, the instance and the calls.
\<close>

definition sync_try ::
  "'k world \<Rightarrow> bool \<Rightarrow> bool \<Rightarrow> webrsync
   \<Rightarrow> (exn + int \<times> bool) \<times> openpgp_env option \<times> webrsync \<times> event list" where
  "sync_try w verbose quiet s =
     (case sync_verify w quiet s of
        (Some r, oenv, s1, t1) \<Rightarrow> (r, oenv, s1, t1)
      | (None, oenv, s1, t1) \<Rightarrow>
         (let cmd = webrsync_cmd (bin_command s1) verbose quiet
                      (opt_enabled (module_specific_options (repo s1))
                         ''sync-webrsync-keep-snapshots'')
          in case spawn w cmd (spawn_kwargs s1) of
               Inl e \<Rightarrow> (Inl e, oenv, s1, t1 @ [Spawn cmd (spawn_kwargs s1)])
             | Inr exitcode \<Rightarrow>
                if exitcode \<noteq> 0
                then (let msg = ''!!! emerge-webrsync error in '' @ location (repo s1)
                      in (Inr (exitcode, False), oenv, s1,
                          t1 @ [Spawn cmd (spawn_kwargs s1),
                                Logger (xterm_titles s1) msg,
                                Writemsg (msg @ [CHR 0x0A])]))
                else (Inr (exitcode, True), oenv, s1,
                      t1 @ [Spawn cmd (spawn_kwargs s1)])))"

text \<open>
  Lines 60 and 61: \<^verbatim>\<open>if kwargs: self._kwargs(kwargs)\<close>. \<open>kwargs\<close> is \<open>None\<close> for an
  empty keyword dictionary.
\<close>

definition apply_kwargs :: "'k world \<Rightarrow> 'k option \<Rightarrow> webrsync \<Rightarrow> webrsync" where
  "apply_kwargs w kwargs self =
     (case kwargs of None \<Rightarrow> self | Some k \<Rightarrow> kwargs_update w k self)"

text \<open>Lines 67 and 68: \<^verbatim>\<open>self.spawn_kwargs.pop(var, None)\<close> for uid, gid and groups.\<close>

definition pop_ids :: "webrsync \<Rightarrow> webrsync" where
  "pop_ids s = s\<lparr>spawn_kwargs := (spawn_kwargs s)\<lparr>uid := None, gid := None, groups := None\<rparr>\<rparr>"

text \<open>
  Lines 138 to 140, the \<^verbatim>\<open>finally\<close> clause: \<^verbatim>\<open>openpgp_env.close()\<close> is called when
  \<^verbatim>\<open>openpgp_env\<close> is not \<^verbatim>\<open>None\<close>, whichever way the body was left. \<open>r\<close> is the
  return value or exception pending from the body; an exception raised by
  \<^verbatim>\<open>close\<close> replaces it.
\<close>

definition sync_finally ::
  "'k world \<Rightarrow> openpgp_env option \<Rightarrow> exn + int \<times> bool \<Rightarrow> exn + int \<times> bool" where
  "sync_finally w oenv r =
     (case oenv of
        None \<Rightarrow> r
      | Some e \<Rightarrow> (case close w e of Inl x \<Rightarrow> Inl x | Inr u \<Rightarrow> r))"

text \<open>\<^verbatim>\<open>WebRsync.sync\<close>.\<close>

definition sync :: "'k world \<Rightarrow> 'k option \<Rightarrow> webrsync \<Rightarrow> outcome" where
  "sync w kwargs self =
     (case has_bin w (apply_kwargs w kwargs self) of
        (hb, s1, t1) \<Rightarrow>
          if \<not> hb then \<lparr>result = Inr (1, False), final = s1, trace = t1\<rparr>
          else
            (let s2 = pop_ids s1;
                 verbose = (''--verbose'' \<in> set (emerge_opts s2));
                 quiet = (''--quiet'' \<in> set (emerge_opts s2))
             in case sync_try w verbose quiet s2 of
                  (r, oenv, s3, t3) \<Rightarrow>
                    \<lparr>result = sync_finally w oenv r, final = s3,
                     trace = t1 @ t3 @ (case oenv of None \<Rightarrow> [] | Some e \<Rightarrow> [Close e])\<rparr>))"

section \<open>PyWebRsync\<close>

text \<open>\<^verbatim>\<open>PyWebRsync.sync\<close>: the body is one \<^verbatim>\<open>raise\<close>.\<close>

definition py_sync :: "'k world \<Rightarrow> 'k option \<Rightarrow> webrsync \<Rightarrow> outcome" where
  "py_sync w kwargs self =
     \<lparr>result = Inl (NotImplementedError
                      ''Python impl. of webrsync backend is not yet implemented''),
      final = self, trace = []\<rparr>"

section \<open>Stating the properties of sync\<close>

text \<open>The instance at the \<^verbatim>\<open>try\<close> statement of \<^verbatim>\<open>sync\<close> (line 73), when it is reached.\<close>

definition try_state :: "'k world \<Rightarrow> 'k option \<Rightarrow> webrsync \<Rightarrow> webrsync" where
  "try_state w kwargs self = pop_ids (fst (snd (has_bin w (apply_kwargs w kwargs self))))"

text \<open>
  The message of the first precondition of verification that is not met, the
  preconditions taken in the order: a key path is set, the path is a file, gemato
  is there.
\<close>

definition unmet_message :: "'k world \<Rightarrow> repo_config \<Rightarrow> string" where
  "unmet_message w r =
     (case sync_openpgp_key_path r of
        None \<Rightarrow> ''!!! sync-openpgp-key-path is not set'' @ [CHR 0x0A]
      | Some p \<Rightarrow>
          if p = [] then ''!!! sync-openpgp-key-path is not set'' @ [CHR 0x0A]
          else if isfile w p
          then ''!!! Verifying against specified key requires gemato-14.5+ installed''
                 @ [CHR 0x0A]
          else ''!!! sync-openpgp-key-path file not found: '' @ p @ [CHR 0x0A])"

text \<open>
  \<open>verify_stage w kwargs self p\<close>: this call of \<^verbatim>\<open>sync\<close> passes \<open>has_bin\<close>,
  verification is enabled and its three preconditions hold for the key path \<open>p\<close>,
  so that \<^verbatim>\<open>_get_openpgp_env\<close> is called.
  \<open>keyring_stage w kwargs self p oenv\<close>: moreover that call returns the keyring \<open>oenv\<close>.
\<close>

definition verify_stage :: "'k world \<Rightarrow> 'k option \<Rightarrow> webrsync \<Rightarrow> string \<Rightarrow> bool" where
  "verify_stage w kwargs self p =
     (fst (has_bin w (apply_kwargs w kwargs self))
      \<and> opt_enabled (module_specific_options (repo (try_state w kwargs self)))
            ''sync-webrsync-verify-signature''
      \<and> sync_openpgp_key_path (repo (try_state w kwargs self)) = Some p
      \<and> p \<noteq> []
      \<and> isfile w p
      \<and> gemato_present w)"

definition keyring_stage ::
  "'k world \<Rightarrow> 'k option \<Rightarrow> webrsync \<Rightarrow> string \<Rightarrow> openpgp_env \<Rightarrow> bool" where
  "keyring_stage w kwargs self p oenv =
     (verify_stage w kwargs self p
      \<and> get_openpgp_env w (try_state w kwargs self) p = Inr oenv)"

text \<open>
  The first exception raised by the three calls of the inner \<^verbatim>\<open>try\<close> block, in the
  order \<^verbatim>\<open>open\<close>, \<^verbatim>\<open>import_key\<close>, \<^verbatim>\<open>_refresh_keys\<close>; \<open>None\<close> when all three return.
\<close>

definition inner_failure :: "'k world \<Rightarrow> webrsync \<Rightarrow> string \<Rightarrow> openpgp_env \<Rightarrow> exn option" where
  "inner_failure w s p oenv =
     (case open_rb w p of
        Inl e \<Rightarrow> Some e
      | Inr f \<Rightarrow>
         (case import_key w oenv f of
            Inl e \<Rightarrow> Some e
          | Inr u \<Rightarrow>
             (case refresh_keys w s oenv of Inl e \<Rightarrow> Some e | Inr u' \<Rightarrow> None)))"

text \<open>The message of the handler of the inner \<^verbatim>\<open>try\<close> block for the exception \<open>e\<close>.\<close>

definition keyring_message :: "exn \<Rightarrow> string" where
  "keyring_message e =
     ''!!! Verification impossible due to keyring problem:'' @ [CHR 0x0A] @ exn_str e
       @ [CHR 0x0A]"

section \<open>A concrete setting\<close>

text \<open>
  A host on which every collaborator succeeds, a repository with verification
  enabled, and a fresh \<^verbatim>\<open>WebRsync\<close> instance bound to both.
\<close>

definition world0 :: "unit world" where
  "world0 =
     \<lparr>kwargs_update = (\<lambda>k s. s),
      find_binary = (\<lambda>b. Some (''/usr/bin/'' @ b)),
      super_has_bin = (\<lambda>s. bin_command s \<noteq> None),
      isfile = (\<lambda>p. p = ''/usr/share/openpgp-keys/gentoo-release.asc''),
      gemato_present = True,
      get_openpgp_env = (\<lambda>s p. Inr (OpenPGPEnvironment ''/tmp/gemato.0'')),
      open_rb = (\<lambda>p. Inr ''KEY''),
      import_key = (\<lambda>e f. Inr ()),
      refresh_keys = (\<lambda>s e. Inr ()),
      spawn = (\<lambda>c k. Inr 0),
      close = (\<lambda>e. Inr ())\<rparr>"

definition repo0 :: repo_config where
  "repo0 =
     \<lparr>module_specific_options = [''sync-webrsync-verify-signature'' \<mapsto> ''yes''],
      sync_openpgp_key_path = Some ''/usr/share/openpgp-keys/gentoo-release.asc'',
      location = ''/var/db/repos/gentoo''\<rparr>"

definition self0 :: webrsync where
  "self0 =
     \<lparr>p_bin_command = ''emerge-webrsync'',
      bin_command = Some ''/usr/bin/emerge-webrsync'',
      bin_pkg = ''>=sys-apps/portage-2.3'',
      repo = repo0,
      emerge_opts = [''--quiet''],
      spawn_kwargs = \<lparr>uid = Some 250, gid = Some 250, groups = Some [250],
                      env = [''PATH'' \<mapsto> ''/usr/bin'']\<rparr>,
      xterm_titles = False\<rparr>"

text \<open>The spawn arguments of \<open>self0\<close> once the keyring of \<open>world0\<close> is advertised.\<close>

definition kw0 :: spawn_kw where
  "kw0 = \<lparr>uid = None, gid = None, groups = None,
          env = [''PATH'' \<mapsto> ''/usr/bin'',
                 ''PORTAGE_GPG_DIR'' \<mapsto> ''/tmp/gemato.0'',
                 ''PORTAGE_TEMP_GPG_DIR'' \<mapsto> ''/tmp/gemato.0'']\<rparr>"

section \<open>Properties\<close>

subsection \<open>Option values\<close>

lemma char_of_nat_eq: "char_of (n::nat) = c \<longleftrightarrow> n mod 256 = of_char c"
  by (simp add: char_of_eq_iff take_bit_eq_mod)

lemma lower_char_eq_iff:
  assumes "97 \<le> (of_char d :: nat)" "(of_char d :: nat) \<le> 122"
  shows "lower_char c = d \<longleftrightarrow> (c = d \<or> case_pair c d \<or> case_pair d c)"
proof -
  have lt: "(of_char c :: nat) < 256" by simp
  have neq: "c = d \<Longrightarrow> (of_char c :: nat) = of_char d" by simp
  show ?thesis
    using assms lt neq
    by (auto simp add: lower_char_def case_pair_def Let_def char_of_nat_eq)
qed

lemma lower_eq_iff:
  assumes "\<And>d. d \<in> set lit \<Longrightarrow> 97 \<le> (of_char d :: nat) \<and> (of_char d :: nat) \<le> 122"
  shows "lower v = lit \<longleftrightarrow> ci_equal v lit"
proof -
  have "lower v = lit \<longleftrightarrow> list_all2 (\<lambda>c d. lower_char c = d) v lit"
    by (simp add: lower_def list_all2_map1 [symmetric, where P="(=)"] list.rel_eq)
  also have "\<dots> \<longleftrightarrow> ci_equal v lit"
    unfolding ci_equal_def
    by (rule list.rel_cong) (use assms in \<open>auto simp add: lower_char_eq_iff\<close>)
  finally show ?thesis .
qed

lemma lower_true: "lower v = ''true'' \<longleftrightarrow> ci_equal v ''true''"
  by (rule lower_eq_iff) auto

lemma lower_yes: "lower v = ''yes'' \<longleftrightarrow> ci_equal v ''yes''"
  by (rule lower_eq_iff) auto

lemma not_ci_false: "\<not> ci_equal ''false'' ''true''" "\<not> ci_equal ''false'' ''yes''"
  by (simp_all add: ci_equal_def case_pair_def)

text \<open>
  C7. The test applied to each of the three module options (\<^verbatim>\<open>sync-webrsync-delta\<close>,
  \<^verbatim>\<open>sync-webrsync-verify-signature\<close>, \<^verbatim>\<open>sync-webrsync-keep-snapshots\<close>, and any other
  key) holds exactly when the key is present and its value equals \<^verbatim>\<open>true\<close> or \<^verbatim>\<open>yes\<close>
  up to the case of letters. An absent key behaves as the default value \<^verbatim>\<open>false\<close>,
  which is disabled.
\<close>

theorem option_enabled_iff:
  "(opt_enabled opts key \<longleftrightarrow>
      (\<exists>v. opts key = Some v \<and> (ci_equal v ''true'' \<or> ci_equal v ''yes'')))
   \<and> opt_enabled (opts(key := None)) key = opt_enabled (opts(key \<mapsto> ''false'')) key
   \<and> \<not> opt_enabled (opts(key := None)) key"
  by (cases "opts key")
     (simp_all add: opt_enabled_def dict_get_def lower_true lower_yes not_ci_false
        del: list.rel_inject list_all2_Cons)

subsection \<open>The native strategy\<close>

text \<open>
  C9. Every call of \<^verbatim>\<open>PyWebRsync.sync\<close> raises \<^verbatim>\<open>NotImplementedError\<close>, whatever the
  arguments and the instance; it makes no call before raising (so it allocates
  nothing) and leaves the instance as it was.
\<close>

theorem py_sync_raises:
  "result (py_sync w kwargs self)
     = Inl (NotImplementedError ''Python impl. of webrsync backend is not yet implemented'')
   \<and> trace (py_sync w kwargs self) = []
   \<and> final (py_sync w kwargs self) = self"
  by (simp add: py_sync_def)

subsection \<open>Traces and frames\<close>

lemma allocs_append [simp]: "allocs (a @ b) = allocs a @ allocs b"
  by (induction a rule: allocs.induct) simp_all
lemma closes_append [simp]: "closes (a @ b) = closes a @ closes b"
  by (induction a rule: closes.induct) simp_all
lemma spawned_append [simp]: "spawned (a @ b) = spawned a @ spawned b"
  by (induction a rule: spawned.induct) simp_all
lemma logged_append [simp]: "logged (a @ b) = logged a @ logged b"
  by (induction a rule: logged.induct) simp_all
lemma written_append [simp]: "written (a @ b) = written a @ written b"
  by (induction a rule: written.induct) simp_all

lemma sync_finally_simps [simp]:
  "sync_finally w None r = r"
  "sync_finally w (Some e) r = (case close w e of Inl x \<Rightarrow> Inl x | Inr u \<Rightarrow> r)"
  by (simp_all add: sync_finally_def)

lemma has_bin_frame:
  assumes "has_bin w s = (hb, s1, t1)"
  shows "repo s1 = repo s" "spawn_kwargs s1 = spawn_kwargs s" "emerge_opts s1 = emerge_opts s"
    "xterm_titles s1 = xterm_titles s"
    "allocs t1 = []" "closes t1 = []" "spawned t1 = []" "logged t1 = []" "written t1 = []"
  using assms by (auto simp add: has_bin_def Let_def split: if_splits)

lemma pop_ids_frame [simp]:
  "repo (pop_ids s) = repo s" "env (spawn_kwargs (pop_ids s)) = env (spawn_kwargs s)"
  "emerge_opts (pop_ids s) = emerge_opts s" "xterm_titles (pop_ids s) = xterm_titles s"
  "bin_command (pop_ids s) = bin_command s"
  by (simp_all add: pop_ids_def)

lemma keyring_except_frame:
  assumes "keyring_except e oenv s t = (r, oe, s', t')"
  shows "oe = Some oenv \<and> s' = s \<and> allocs t' = allocs t \<and> closes t' = closes t
    \<and> spawned t' = spawned t \<and> logged t' = logged t \<and> r \<noteq> None"
  using assms by (auto simp add: keyring_except_def split: if_splits)

lemma sync_keys_frame:
  assumes "sync_keys w q s p oenv = (r, oe, s', t')"
  shows "oe = Some oenv \<and> allocs t' = [oenv] \<and> closes t' = [] \<and> spawned t' = [] \<and> logged t' = []
    \<and> repo s' = repo s \<and> bin_command s' = bin_command s \<and> xterm_titles s' = xterm_titles s
    \<and> emerge_opts s' = emerge_opts s"
  using assms
  by (auto simp add: sync_keys_def Let_def split: sum.splits dest!: keyring_except_frame)

lemma sync_verify_frame:
  assumes "sync_verify w q s = (r, oe, s', t')"
  shows "allocs t' = (case oe of None \<Rightarrow> [] | Some e \<Rightarrow> [e]) \<and> closes t' = [] \<and> spawned t' = []
    \<and> logged t' = []
    \<and> repo s' = repo s \<and> bin_command s' = bin_command s \<and> xterm_titles s' = xterm_titles s
    \<and> emerge_opts s' = emerge_opts s"
  using assms
  by (auto simp add: sync_verify_def Let_def split: if_splits sum.splits dest!: sync_keys_frame)

lemma sync_try_frame:
  assumes "sync_try w v q s = (r, oe, s', t')"
  shows "allocs t' = (case oe of None \<Rightarrow> [] | Some e \<Rightarrow> [e]) \<and> closes t' = []
    \<and> length (spawned t') \<le> 1
    \<and> repo s' = repo s \<and> bin_command s' = bin_command s \<and> xterm_titles s' = xterm_titles s
    \<and> emerge_opts s' = emerge_opts s"
proof -
  obtain r1 oe1 s1 t1 where sv: "sync_verify w q s = (r1, oe1, s1, t1)"
    by (cases "sync_verify w q s") auto
  from sync_verify_frame [OF sv] assms sv show ?thesis
    by (cases r1) (auto simp add: sync_try_def Let_def split: sum.splits if_splits)
qed

subsection \<open>Release of the keyring\<close>

text \<open>
  C2. In every call of \<^verbatim>\<open>sync\<close> the keyrings closed are exactly the keyrings
  allocated, at most one is allocated, and when one is, closing it is the last
  thing \<^verbatim>\<open>sync\<close> does: whether it returns normally, returns \<^verbatim>\<open>(1, False)\<close> after a
  keyring failure, or is left by an exception. With no keyring allocated nothing
  is closed.
\<close>

theorem keyring_closed_once:
  "closes (trace (sync w kwargs self)) = allocs (trace (sync w kwargs self))
   \<and> length (allocs (trace (sync w kwargs self))) \<le> 1
   \<and> (allocs (trace (sync w kwargs self)) = []
      \<or> (\<exists>e. allocs (trace (sync w kwargs self)) = [e]
             \<and> last (trace (sync w kwargs self)) = Close e))"
proof -
  obtain hb s1 t1 where hb: "has_bin w (apply_kwargs w kwargs self) = (hb, s1, t1)"
    by (cases "has_bin w (apply_kwargs w kwargs self)") auto
  obtain r oe s3 t3 where st:
    "sync_try w (''--verbose'' \<in> set (emerge_opts (pop_ids s1)))
       (''--quiet'' \<in> set (emerge_opts (pop_ids s1))) (pop_ids s1) = (r, oe, s3, t3)"
    by (cases "sync_try w (''--verbose'' \<in> set (emerge_opts (pop_ids s1)))
       (''--quiet'' \<in> set (emerge_opts (pop_ids s1))) (pop_ids s1)") auto
  show ?thesis
  proof (cases hb)
    case False
    with hb has_bin_frame [OF hb] show ?thesis by (simp add: sync_def)
  next
    case True
    with hb st has_bin_frame [OF hb] sync_try_frame [OF st] show ?thesis
      by (cases oe) (simp_all add: sync_def Let_def del: pop_ids_frame)
  qed
qed

subsection \<open>The verification block\<close>

lemmas eval_defs = sync_def has_bin_def apply_kwargs_def pop_ids_def sync_try_def sync_verify_def
  sync_keys_def keyring_except_def webrsync_cmd_def opt_enabled_def dict_get_def lower_def
  lower_char_def char_of_nat_eq world0_def repo0_def self0_def Let_def try_state_def
  unmet_message_def keyring_stage_def inner_failure_def keyring_message_def sync_finally_def
  verify_stage_def

lemma sync_verify_disabled:
  "\<not> opt_enabled (module_specific_options (repo s)) ''sync-webrsync-verify-signature''
   \<Longrightarrow> sync_verify w q s = (None, None, s, [])"
  by (simp add: sync_verify_def)

lemma sync_verify_unmet:
  assumes "opt_enabled (module_specific_options (repo s)) ''sync-webrsync-verify-signature''"
    and "sync_openpgp_key_path (repo s) = None
         \<or> sync_openpgp_key_path (repo s) = Some []
         \<or> (\<exists>p. sync_openpgp_key_path (repo s) = Some p \<and> \<not> isfile w p)
         \<or> \<not> gemato_present w"
  shows "sync_verify w q s = (Some (Inr (1, False)), None, s, [Writemsg (unmet_message w (repo s))])"
  using assms by (auto simp add: sync_verify_def unmet_message_def Let_def split: option.splits)

lemma sync_verify_stage:
  assumes "opt_enabled (module_specific_options (repo s)) ''sync-webrsync-verify-signature''"
    and "sync_openpgp_key_path (repo s) = Some p" "p \<noteq> []" "isfile w p" "gemato_present w"
    and "get_openpgp_env w s p = Inr oenv"
  shows "sync_verify w q s = sync_keys w q s p oenv"
  using assms by (simp add: sync_verify_def)

lemma sync_verify_fallthrough:
  assumes "sync_verify w q s = (None, oe, s', t')"
  shows "written t' = [] \<and> logged t' = [] \<and> spawned t' = []"
  using assms
  by (auto simp add: sync_verify_def sync_keys_def keyring_except_def Let_def
      split: if_splits sum.splits)

lemma sync_unfold:
  assumes "has_bin w (apply_kwargs w kwargs self) = (hb, s1, t1)"
  shows "sync w kwargs self =
     (if \<not> hb then \<lparr>result = Inr (1, False), final = s1, trace = t1\<rparr>
      else (case sync_try w (''--verbose'' \<in> set (emerge_opts s1)) (''--quiet'' \<in> set (emerge_opts s1))
                   (pop_ids s1) of
              (r, oenv, s3, t3) \<Rightarrow>
                \<lparr>result = sync_finally w oenv r, final = s3,
                 trace = t1 @ t3 @ (case oenv of None \<Rightarrow> [] | Some e \<Rightarrow> [Close e])\<rparr>))"
  using assms by (simp add: sync_def Let_def)

subsection \<open>Preconditions of verification\<close>

text \<open>
  C1. With \<^verbatim>\<open>sync-webrsync-verify-signature\<close> enabled, if the key path is not set
  (\<^verbatim>\<open>None\<close> or empty), or it is set and is not a file, or gemato is missing, then
  \<^verbatim>\<open>sync\<close> returns exactly \<^verbatim>\<open>(1, False)\<close>, spawns no process and allocates no
  keyring. The preconditions are checked in this order and the first one that
  fails ends the call: when \<open>has_bin\<close> holds, the one message written is the
  message of the first unmet precondition (when it does not, \<^verbatim>\<open>sync\<close> has returned
  \<^verbatim>\<open>(1, False)\<close> before the checks).
\<close>

theorem verify_preconditions_fail_fast:
  assumes "opt_enabled (module_specific_options (repo (apply_kwargs w kwargs self)))
             ''sync-webrsync-verify-signature''"
    and "sync_openpgp_key_path (repo (apply_kwargs w kwargs self)) = None
         \<or> sync_openpgp_key_path (repo (apply_kwargs w kwargs self)) = Some []
         \<or> (\<exists>p. sync_openpgp_key_path (repo (apply_kwargs w kwargs self)) = Some p
                \<and> \<not> isfile w p)
         \<or> \<not> gemato_present w"
  shows "result (sync w kwargs self) = Inr (1, False)
       \<and> spawned (trace (sync w kwargs self)) = []
       \<and> allocs (trace (sync w kwargs self)) = []
       \<and> written (trace (sync w kwargs self)) =
           (if fst (has_bin w (apply_kwargs w kwargs self))
            then [unmet_message w (repo (apply_kwargs w kwargs self))] else [])"
proof -
  obtain hb s1 t1 where hb: "has_bin w (apply_kwargs w kwargs self) = (hb, s1, t1)"
    by (cases "has_bin w (apply_kwargs w kwargs self)") auto
  have r: "repo (pop_ids s1) = repo (apply_kwargs w kwargs self)"
    using has_bin_frame(1) [OF hb] by simp
  have sv: "sync_verify w q (pop_ids s1)
      = (Some (Inr (1, False)), None, pop_ids s1,
         [Writemsg (unmet_message w (repo (apply_kwargs w kwargs self)))])" for q
    using sync_verify_unmet [of "pop_ids s1" w q] assms r by simp
  show ?thesis
    using hb has_bin_frame [OF hb]
    by (simp add: sync_unfold [OF hb] sync_try_def sv)
qed

text \<open>The three preconditions, each failing in turn, on the concrete setting.\<close>

theorem verify_preconditions_fail_fast_witness:
  "result (sync world0 None (self0\<lparr>repo := repo0\<lparr>sync_openpgp_key_path := None\<rparr>\<rparr>)) = Inr (1, False)
   \<and> written (trace (sync world0 None (self0\<lparr>repo := repo0\<lparr>sync_openpgp_key_path := None\<rparr>\<rparr>)))
       = [''!!! sync-openpgp-key-path is not set'' @ [CHR 0x0A]]
   \<and> result (sync world0 None (self0\<lparr>repo := repo0\<lparr>sync_openpgp_key_path := Some ''/nowhere''\<rparr>\<rparr>))
       = Inr (1, False)
   \<and> written (trace (sync world0 None
         (self0\<lparr>repo := repo0\<lparr>sync_openpgp_key_path := Some ''/nowhere''\<rparr>\<rparr>)))
       = [''!!! sync-openpgp-key-path file not found: /nowhere'' @ [CHR 0x0A]]
   \<and> result (sync (world0\<lparr>gemato_present := False\<rparr>) None self0) = Inr (1, False)
   \<and> spawned (trace (sync (world0\<lparr>gemato_present := False\<rparr>) None self0)) = []
   \<and> allocs (trace (sync (world0\<lparr>gemato_present := False\<rparr>) None self0)) = []
   \<and> written (trace (sync (world0\<lparr>gemato_present := False\<rparr>) None self0))
       = [''!!! Verifying against specified key requires gemato-14.5+ installed'' @ [CHR 0x0A]]"
proof -
  let ?s1 = "self0\<lparr>repo := repo0\<lparr>sync_openpgp_key_path := None\<rparr>\<rparr>"
  let ?s2 = "self0\<lparr>repo := repo0\<lparr>sync_openpgp_key_path := Some ''/nowhere''\<rparr>\<rparr>"
  let ?w3 = "world0\<lparr>gemato_present := False\<rparr>"
  have e1: "opt_enabled (module_specific_options (repo (apply_kwargs world0 None ?s1)))
             ''sync-webrsync-verify-signature''"
    by (simp add: eval_defs)
  have h1: "sync_openpgp_key_path (repo (apply_kwargs world0 None ?s1)) = None"
    by (simp add: eval_defs)
  have e2: "opt_enabled (module_specific_options (repo (apply_kwargs world0 None ?s2)))
             ''sync-webrsync-verify-signature''"
    by (simp add: eval_defs)
  have h2: "\<exists>p. sync_openpgp_key_path (repo (apply_kwargs world0 None ?s2)) = Some p
                \<and> \<not> isfile world0 p"
    by (simp add: eval_defs)
  have e3: "opt_enabled (module_specific_options (repo (apply_kwargs ?w3 None self0)))
             ''sync-webrsync-verify-signature''"
    by (simp add: eval_defs)
  have h3: "\<not> gemato_present ?w3"
    by (simp add: eval_defs)
  have hb1: "fst (has_bin world0 (apply_kwargs world0 None ?s1))"
    and hb2: "fst (has_bin world0 (apply_kwargs world0 None ?s2))"
    and hb3: "fst (has_bin ?w3 (apply_kwargs ?w3 None self0))"
    by (simp_all add: eval_defs)
  have m1: "unmet_message world0 (repo (apply_kwargs world0 None ?s1))
      = ''!!! sync-openpgp-key-path is not set'' @ [CHR 0x0A]"
    and m2: "unmet_message world0 (repo (apply_kwargs world0 None ?s2))
      = ''!!! sync-openpgp-key-path file not found: /nowhere'' @ [CHR 0x0A]"
    and m3: "unmet_message ?w3 (repo (apply_kwargs ?w3 None self0))
      = ''!!! Verifying against specified key requires gemato-14.5+ installed'' @ [CHR 0x0A]"
    by (simp_all add: eval_defs)
  from verify_preconditions_fail_fast [OF e1 disjI1, OF h1]
       verify_preconditions_fail_fast [OF e2 disjI2, OF disjI2, OF disjI1, OF h2]
       verify_preconditions_fail_fast [OF e3 disjI2, OF disjI2, OF disjI2, OF h3]
  show ?thesis
    by (simp only: hb1 hb2 hb3 m1 m2 m3 if_True simp_thms)
qed

subsection \<open>Verification disabled\<close>

text \<open>
  C4. When \<^verbatim>\<open>sync-webrsync-verify-signature\<close> is disabled (absent, or a value other
  than \<^verbatim>\<open>true\<close>/\<^verbatim>\<open>yes\<close> up to case), \<^verbatim>\<open>sync\<close> allocates no keyring and leaves the whole
  \<^verbatim>\<open>env\<close> dictionary of the spawn arguments as it was, so it sets neither
  \<^verbatim>\<open>PORTAGE_GPG_DIR\<close> nor \<^verbatim>\<open>PORTAGE_TEMP_GPG_DIR\<close>; the process, if one is spawned,
  is given that unchanged environment.
\<close>

theorem verify_disabled_no_keyring:
  assumes "\<not> opt_enabled (module_specific_options (repo (apply_kwargs w kwargs self)))
               ''sync-webrsync-verify-signature''"
  shows "allocs (trace (sync w kwargs self)) = []
     \<and> env (spawn_kwargs (final (sync w kwargs self)))
         = env (spawn_kwargs (apply_kwargs w kwargs self))
     \<and> (spawned (trace (sync w kwargs self)) = []
        \<or> (\<exists>cmd k. spawned (trace (sync w kwargs self)) = [(cmd, k)]
              \<and> env k = env (spawn_kwargs (apply_kwargs w kwargs self))))"
proof -
  obtain hb s1 t1 where hb: "has_bin w (apply_kwargs w kwargs self) = (hb, s1, t1)"
    by (cases "has_bin w (apply_kwargs w kwargs self)") auto
  have r: "repo (pop_ids s1) = repo (apply_kwargs w kwargs self)"
    using has_bin_frame(1) [OF hb] by simp
  have sv: "sync_verify w q (pop_ids s1) = (None, None, pop_ids s1, [])" for q
    using sync_verify_disabled [of "pop_ids s1" w q] assms r by simp
  show ?thesis
    using hb has_bin_frame [OF hb]
    by (auto simp add: sync_unfold [OF hb] sync_try_def sv Let_def split: sum.splits)
qed

text \<open>A repository with the option set to \<^verbatim>\<open>no\<close>.\<close>

theorem verify_disabled_no_keyring_witness:
  "\<not> opt_enabled (module_specific_options
         (repo (apply_kwargs world0 None
            (self0\<lparr>repo := repo0\<lparr>module_specific_options :=
                [''sync-webrsync-verify-signature'' \<mapsto> ''no'']\<rparr>\<rparr>))))
       ''sync-webrsync-verify-signature''
   \<and> allocs (trace (sync world0 None
         (self0\<lparr>repo := repo0\<lparr>module_specific_options :=
                [''sync-webrsync-verify-signature'' \<mapsto> ''no'']\<rparr>\<rparr>))) = []
   \<and> env (spawn_kwargs (final (sync world0 None
         (self0\<lparr>repo := repo0\<lparr>module_specific_options :=
                [''sync-webrsync-verify-signature'' \<mapsto> ''no'']\<rparr>\<rparr>)))) ''PORTAGE_GPG_DIR'' = None
   \<and> env (spawn_kwargs (final (sync world0 None
         (self0\<lparr>repo := repo0\<lparr>module_specific_options :=
                [''sync-webrsync-verify-signature'' \<mapsto> ''no'']\<rparr>\<rparr>)))) ''PORTAGE_TEMP_GPG_DIR'' = None"
proof -
  let ?s = "self0\<lparr>repo := repo0\<lparr>module_specific_options :=
                [''sync-webrsync-verify-signature'' \<mapsto> ''no'']\<rparr>\<rparr>"
  have h: "\<not> opt_enabled (module_specific_options (repo (apply_kwargs world0 None ?s)))
               ''sync-webrsync-verify-signature''"
    by (simp add: eval_defs)
  have e: "env (spawn_kwargs (apply_kwargs world0 None ?s)) = [''PATH'' \<mapsto> ''/usr/bin'']"
    by (simp add: eval_defs)
  from verify_disabled_no_keyring [OF h] h show ?thesis
    by (simp add: e)
qed

subsection \<open>The command vector\<close>

lemma sync_cases:
  obtains (nobin) s1 t1 where
      "has_bin w (apply_kwargs w kwargs self) = (False, s1, t1)"
      "sync w kwargs self = \<lparr>result = Inr (1, False), final = s1, trace = t1\<rparr>"
  | (run) s1 t1 r oe s3 t3 where
      "has_bin w (apply_kwargs w kwargs self) = (True, s1, t1)"
      "sync_try w (''--verbose'' \<in> set (emerge_opts s1)) (''--quiet'' \<in> set (emerge_opts s1))
         (pop_ids s1) = (r, oe, s3, t3)"
      "sync w kwargs self =
         \<lparr>result = sync_finally w oe r, final = s3,
          trace = t1 @ t3 @ (case oe of None \<Rightarrow> [] | Some e \<Rightarrow> [Close e])\<rparr>"
proof -
  obtain hb s1 t1 where hb: "has_bin w (apply_kwargs w kwargs self) = (hb, s1, t1)"
    by (cases "has_bin w (apply_kwargs w kwargs self)") auto
  obtain r oe s3 t3 where st:
    "sync_try w (''--verbose'' \<in> set (emerge_opts s1)) (''--quiet'' \<in> set (emerge_opts s1))
       (pop_ids s1) = (r, oe, s3, t3)"
    by (cases "sync_try w (''--verbose'' \<in> set (emerge_opts s1))
       (''--quiet'' \<in> set (emerge_opts s1)) (pop_ids s1)") auto
  show thesis
  proof (cases hb)
    case False
    with hb show thesis by (intro nobin [of s1 t1]) (simp_all add: sync_unfold [OF hb])
  next
    case True
    with hb st show thesis
      by (intro run [of s1 t1 r oe s3 t3]) (simp_all add: sync_unfold [OF hb])
  qed
qed

lemma close_part [simp]:
  "spawned (case oe of None \<Rightarrow> [] | Some e \<Rightarrow> [Close e]) = []"
  "logged (case oe of None \<Rightarrow> [] | Some e \<Rightarrow> [Close e]) = []"
  "written (case oe of None \<Rightarrow> [] | Some e \<Rightarrow> [Close e]) = []"
  "allocs (case oe of None \<Rightarrow> [] | Some e \<Rightarrow> [Close e]) = []"
  by (cases oe; simp)+

lemma sync_try_spawned:
  assumes "sync_try w v q s = (r, oe, s', t')"
  shows "spawned t' = []
     \<or> spawned t' = [(webrsync_cmd (bin_command s') v q
            (opt_enabled (module_specific_options (repo s')) ''sync-webrsync-keep-snapshots''),
          spawn_kwargs s')]"
proof -
  obtain r1 oe1 s1 t1 where sv: "sync_verify w q s = (r1, oe1, s1, t1)"
    by (cases "sync_verify w q s") auto
  from sync_verify_frame [OF sv] assms sv show ?thesis
    by (cases r1) (auto simp add: sync_try_def Let_def split: sum.splits if_splits)
qed

text \<open>
  C5. For all values of the verbose, quiet and keep-snapshots flags the command
  vector is the binary path, then \<^verbatim>\<open>-v\<close> if verbose, else \<^verbatim>\<open>-q\<close> if quiet, then \<^verbatim>\<open>-k\<close>
  if and only if keep-snapshots is enabled: a function of the four inputs, so the
  order is fixed. After the first element \<^verbatim>\<open>-v\<close> and \<^verbatim>\<open>-q\<close> never both occur. A
  process that \<^verbatim>\<open>sync\<close> spawns is given this vector, built from the instance's
  \<open>bin_command\<close>, the presence of \<^verbatim>\<open>--verbose\<close> and \<^verbatim>\<open>--quiet\<close> among the emerge
  options, and the \<^verbatim>\<open>sync-webrsync-keep-snapshots\<close> option.
\<close>

theorem command_vector:
  "webrsync_cmd bin verbose quiet keep
     = bin # (if verbose then [Some ''-v''] else if quiet then [Some ''-q''] else [])
         @ (if keep then [Some ''-k''] else [])
   \<and> hd (webrsync_cmd bin verbose quiet keep) = bin
   \<and> (Some ''-v'' \<in> set (tl (webrsync_cmd bin verbose quiet keep)) \<longleftrightarrow> verbose)
   \<and> (Some ''-q'' \<in> set (tl (webrsync_cmd bin verbose quiet keep)) \<longleftrightarrow> \<not> verbose \<and> quiet)
   \<and> (Some ''-k'' \<in> set (tl (webrsync_cmd bin verbose quiet keep)) \<longleftrightarrow> keep)
   \<and> \<not> (Some ''-v'' \<in> set (tl (webrsync_cmd bin verbose quiet keep))
        \<and> Some ''-q'' \<in> set (tl (webrsync_cmd bin verbose quiet keep)))
   \<and> (spawned (trace (sync w kwargs self)) = []
      \<or> spawned (trace (sync w kwargs self))
          = [(webrsync_cmd (bin_command (final (sync w kwargs self)))
                (''--verbose'' \<in> set (emerge_opts (final (sync w kwargs self))))
                (''--quiet'' \<in> set (emerge_opts (final (sync w kwargs self))))
                (opt_enabled (module_specific_options (repo (final (sync w kwargs self))))
                   ''sync-webrsync-keep-snapshots''),
              spawn_kwargs (final (sync w kwargs self)))])"
proof -
  have link: "spawned (trace (sync w kwargs self)) = []
      \<or> spawned (trace (sync w kwargs self))
          = [(webrsync_cmd (bin_command (final (sync w kwargs self)))
                (''--verbose'' \<in> set (emerge_opts (final (sync w kwargs self))))
                (''--quiet'' \<in> set (emerge_opts (final (sync w kwargs self))))
                (opt_enabled (module_specific_options (repo (final (sync w kwargs self))))
                   ''sync-webrsync-keep-snapshots''),
              spawn_kwargs (final (sync w kwargs self)))]"
  proof (cases w kwargs self rule: sync_cases)
    case (nobin s1 t1)
    then show ?thesis using has_bin_frame(7) [OF nobin(1)] by simp
  next
    case (run s1 t1 r oe s3 t3)
    have eo: "emerge_opts s3 = emerge_opts s1"
      using sync_try_frame [OF run(2)] by simp
    show ?thesis
      using has_bin_frame(7) [OF run(1)] sync_try_spawned [OF run(2)]
      by (simp add: run(3) eo)
  qed
  have cmd: "webrsync_cmd bin verbose quiet keep
     = bin # (if verbose then [Some ''-v''] else if quiet then [Some ''-q''] else [])
         @ (if keep then [Some ''-k''] else [])"
    by (simp add: webrsync_cmd_def)
  show ?thesis
    using link by (simp add: cmd)
qed

subsection \<open>The exit code of the child\<close>

lemma sync_try_exit:
  assumes "sync_try w v q s = (r, oe, s', t')"
    and "spawned t' = [(cmd, k)]" and "spawn w cmd k = Inr c"
  shows "r = Inr (c, c = 0)
     \<and> logged t' = (if c = 0 then [] else [''!!! emerge-webrsync error in '' @ location (repo s)])
     \<and> written t' = (if c = 0 then []
                      else [''!!! emerge-webrsync error in '' @ location (repo s) @ [CHR 0x0A]])"
proof -
  obtain r1 oe1 s1 t1 where sv: "sync_verify w q s = (r1, oe1, s1, t1)"
    by (cases "sync_verify w q s") auto
  show ?thesis
  proof (cases r1)
    case None
    with sv sync_verify_fallthrough [of w q s oe1 s1 t1] sync_verify_frame [OF sv] assms
    show ?thesis
      by (auto simp add: sync_try_def Let_def split: sum.splits if_splits)
  next
    case (Some x)
    with sv sync_verify_frame [OF sv] assms show ?thesis
      by (simp add: sync_try_def)
  qed
qed

text \<open>
  C6, as amended. When \<^verbatim>\<open>sync\<close> spawns the process and the process exits with code
  \<open>c\<close>, the body of \<^verbatim>\<open>sync\<close> returns \<^verbatim>\<open>(c, True)\<close> for \<open>c = 0\<close> (\<^verbatim>\<open>os.EX_OK\<close>) and
  \<^verbatim>\<open>(c, False)\<close> otherwise, and this is the result of \<^verbatim>\<open>sync\<close> unless a keyring was
  allocated and \<^verbatim>\<open>close\<close> raises in the \<^verbatim>\<open>finally\<close> clause: then that exception leaves
  \<^verbatim>\<open>sync\<close> in place of the pair. For \<open>c \<noteq> 0\<close> the message
  \<^verbatim>\<open>!!! emerge-webrsync error in <location>\<close> is given to \<^verbatim>\<open>self.logger\<close> exactly once,
  and the same text with a newline is the one message written by
  \<^verbatim>\<open>writemsg_level\<close>; for \<open>c = 0\<close> neither happens.
\<close>

theorem exit_code_surfaced:
  assumes "spawned (trace (sync w kwargs self)) = [(cmd, k)]" and "spawn w cmd k = Inr c"
  shows "result (sync w kwargs self)
         = (case allocs (trace (sync w kwargs self)) of
              [] \<Rightarrow> Inr (c, c = 0)
            | oenv # rest \<Rightarrow>
                (case close w oenv of Inl x \<Rightarrow> Inl x | Inr u \<Rightarrow> Inr (c, c = 0)))
     \<and> logged (trace (sync w kwargs self))
         = (if c = 0 then []
            else [''!!! emerge-webrsync error in ''
                    @ location (repo (apply_kwargs w kwargs self))])
     \<and> written (trace (sync w kwargs self))
         = (if c = 0 then []
            else [''!!! emerge-webrsync error in ''
                    @ location (repo (apply_kwargs w kwargs self)) @ [CHR 0x0A]])"
proof (cases w kwargs self rule: sync_cases)
  case (nobin s1 t1)
  with assms(1) has_bin_frame(7) [OF nobin(1)] show ?thesis by simp
next
  case (run s1 t1 r oe s3 t3)
  have sp: "spawned t3 = [(cmd, k)]"
    using assms(1) has_bin_frame(7) [OF run(1)] by (simp add: run(3))
  from sync_try_exit [OF run(2) sp assms(2)] has_bin_frame(1,5,8,9) [OF run(1)]
    sync_try_frame [OF run(2)]
  show ?thesis
    by (cases oe) (simp_all add: run(3))
qed

text \<open>
  The claim as stated fails: the child exits with 0, a keyring was allocated, and
  \<^verbatim>\<open>close\<close> raises while removing it; \<^verbatim>\<open>sync\<close> raises instead of returning \<^verbatim>\<open>(0, True)\<close>.
\<close>

theorem close_failure_replaces_exit_code:
  "spawned (trace (sync (world0\<lparr>close := (\<lambda>e. Inl (OSError ''[Errno 39] Directory not empty''))\<rparr>)
       None self0))
     = [([Some ''/usr/bin/emerge-webrsync'', Some ''-q''], kw0)]
   \<and> spawn (world0\<lparr>close := (\<lambda>e. Inl (OSError ''[Errno 39] Directory not empty''))\<rparr>)
       [Some ''/usr/bin/emerge-webrsync'', Some ''-q''] kw0 = Inr 0
   \<and> result (sync (world0\<lparr>close := (\<lambda>e. Inl (OSError ''[Errno 39] Directory not empty''))\<rparr>)
       None self0)
     = Inl (OSError ''[Errno 39] Directory not empty'')"
  by (simp add: eval_defs kw0_def)

text \<open>
  A child that exits with 0, one that exits with 2, and one that exits with 2 while
  \<^verbatim>\<open>close\<close> raises afterwards.
\<close>

theorem exit_code_surfaced_witness:
  "result (sync world0 None self0) = Inr (0, True)
   \<and> logged (trace (sync world0 None self0)) = []
   \<and> result (sync (world0\<lparr>spawn := (\<lambda>c k. Inr 2)\<rparr>) None self0) = Inr (2, False)
   \<and> logged (trace (sync (world0\<lparr>spawn := (\<lambda>c k. Inr 2)\<rparr>) None self0))
       = [''!!! emerge-webrsync error in /var/db/repos/gentoo'']
   \<and> written (trace (sync (world0\<lparr>spawn := (\<lambda>c k. Inr 2)\<rparr>) None self0))
       = [''!!! emerge-webrsync error in /var/db/repos/gentoo'' @ [CHR 0x0A]]
   \<and> result (sync (world0\<lparr>spawn := (\<lambda>c k. Inr 2),
                           close := (\<lambda>e. Inl (OSError ''busy''))\<rparr>) None self0)
       = Inl (OSError ''busy'')
   \<and> logged (trace (sync (world0\<lparr>spawn := (\<lambda>c k. Inr 2),
                           close := (\<lambda>e. Inl (OSError ''busy''))\<rparr>) None self0))
       = [''!!! emerge-webrsync error in /var/db/repos/gentoo'']"
proof -
  let ?w = "world0\<lparr>spawn := (\<lambda>c k. Inr 2)\<rparr>"
  let ?wc = "world0\<lparr>spawn := (\<lambda>c k. Inr 2), close := (\<lambda>e. Inl (OSError ''busy''))\<rparr>"
  let ?cmd = "[Some ''/usr/bin/emerge-webrsync'', Some ''-q'']"
  let ?o = "OpenPGPEnvironment ''/tmp/gemato.0''"
  have s0: "spawned (trace (sync world0 None self0)) = [(?cmd, kw0)]"
    and s2: "spawned (trace (sync ?w None self0)) = [(?cmd, kw0)]"
    and sc: "spawned (trace (sync ?wc None self0)) = [(?cmd, kw0)]"
    by (simp_all add: eval_defs kw0_def)
  have c0: "spawn world0 ?cmd kw0 = Inr 0"
    and c2: "spawn ?w ?cmd kw0 = Inr 2"
    and cc: "spawn ?wc ?cmd kw0 = Inr 2"
    by (simp_all add: world0_def)
  have a0: "allocs (trace (sync world0 None self0)) = [?o]"
    and a2: "allocs (trace (sync ?w None self0)) = [?o]"
    and ac: "allocs (trace (sync ?wc None self0)) = [?o]"
    by (simp_all add: eval_defs)
  have k0: "close world0 ?o = Inr ()"
    and kc: "close ?wc ?o = Inl (OSError ''busy'')"
    by (simp_all add: world0_def)
  have l: "location (repo (apply_kwargs ?w None self0)) = ''/var/db/repos/gentoo''"
    and lc: "location (repo (apply_kwargs ?wc None self0)) = ''/var/db/repos/gentoo''"
    by (simp_all add: eval_defs)
  from exit_code_surfaced [OF s0 c0] exit_code_surfaced [OF s2 c2] exit_code_surfaced [OF sc cc]
  show ?thesis
    by (simp add: l lc a0 a2 ac k0 kc)
qed

subsection \<open>Import and refresh of the key\<close>

lemma sync_keys_fail:
  assumes "inner_failure w s p oenv = Some e"
  shows "\<exists>t. sync_keys w q s p oenv = keyring_except e oenv s t
            \<and> written t = [] \<and> spawned t = [] \<and> logged t = []"
  using assms
  by (auto simp add: inner_failure_def sync_keys_def Let_def split: sum.splits)

lemma sync_keys_ok:
  assumes "inner_failure w s p oenv = None"
  shows "\<exists>t. sync_keys w q s p oenv =
              (None, Some oenv,
               s\<lparr>spawn_kwargs := (spawn_kwargs s)
                   \<lparr>env := (env (spawn_kwargs s))
                      (''PORTAGE_GPG_DIR'' \<mapsto> home oenv,
                       ''PORTAGE_TEMP_GPG_DIR'' \<mapsto> home oenv)\<rparr>\<rparr>, t)
            \<and> written t = [] \<and> spawned t = [] \<and> logged t = []"
  using assms
  by (auto simp add: inner_failure_def sync_keys_def Let_def split: sum.splits)

lemma stage_run:
  assumes "keyring_stage w kwargs self p oenv"
  obtains s1 t1 r oe s3 t3 where
      "has_bin w (apply_kwargs w kwargs self) = (True, s1, t1)"
      "try_state w kwargs self = pop_ids s1"
      "sync_try w (''--verbose'' \<in> set (emerge_opts s1)) (''--quiet'' \<in> set (emerge_opts s1))
         (pop_ids s1) = (r, oe, s3, t3)"
      "sync w kwargs self =
         \<lparr>result = sync_finally w oe r, final = s3,
          trace = t1 @ t3 @ (case oe of None \<Rightarrow> [] | Some e \<Rightarrow> [Close e])\<rparr>"
      "sync_verify w (''--quiet'' \<in> set (emerge_opts s1)) (pop_ids s1)
         = sync_keys w (''--quiet'' \<in> set (emerge_opts s1)) (pop_ids s1) p oenv"
proof (cases w kwargs self rule: sync_cases)
  case (nobin s1 t1)
  with assms show ?thesis by (simp add: keyring_stage_def verify_stage_def)
next
  case (run s1 t1 r oe s3 t3)
  have ts: "try_state w kwargs self = pop_ids s1"
    by (simp add: try_state_def run(1))
  have sv: "sync_verify w (''--quiet'' \<in> set (emerge_opts s1)) (pop_ids s1)
         = sync_keys w (''--quiet'' \<in> set (emerge_opts s1)) (pop_ids s1) p oenv"
    using assms unfolding keyring_stage_def verify_stage_def ts
    by (intro sync_verify_stage) simp_all
  show ?thesis by (rule that [OF run(1) ts run(2) run(3) sv])
qed

lemma sync_stage_fail:
  assumes "keyring_stage w kwargs self p oenv"
    and "inner_failure w (try_state w kwargs self) p oenv = Some e"
  shows "result (sync w kwargs self)
         = (case close w oenv of
              Inl x \<Rightarrow> Inl x
            | Inr u \<Rightarrow> if caught e then Inr (1, False) else Inl e)
     \<and> written (trace (sync w kwargs self)) = (if caught e then [keyring_message e] else [])
     \<and> spawned (trace (sync w kwargs self)) = []
     \<and> env (spawn_kwargs (final (sync w kwargs self)))
         = env (spawn_kwargs (apply_kwargs w kwargs self))"
  using assms(1)
proof (rule stage_run)
  fix s1 t1 r oe s3 t3
  assume hb: "has_bin w (apply_kwargs w kwargs self) = (True, s1, t1)"
    and ts: "try_state w kwargs self = pop_ids s1"
    and st: "sync_try w (''--verbose'' \<in> set (emerge_opts s1))
         (''--quiet'' \<in> set (emerge_opts s1)) (pop_ids s1) = (r, oe, s3, t3)"
    and sy: "sync w kwargs self =
         \<lparr>result = sync_finally w oe r, final = s3,
          trace = t1 @ t3 @ (case oe of None \<Rightarrow> [] | Some e \<Rightarrow> [Close e])\<rparr>"
    and sv: "sync_verify w (''--quiet'' \<in> set (emerge_opts s1)) (pop_ids s1)
         = sync_keys w (''--quiet'' \<in> set (emerge_opts s1)) (pop_ids s1) p oenv"
  obtain t where t: "sync_keys w (''--quiet'' \<in> set (emerge_opts s1)) (pop_ids s1) p oenv
        = keyring_except e oenv (pop_ids s1) t"
      "written t = []" "spawned t = []" "logged t = []"
    using sync_keys_fail [OF assms(2) [unfolded ts]] by blast
  have "(r, oe, s3, t3) =
      (if caught e then (Inr (1, False), Some oenv, pop_ids s1, t @ [Writemsg (keyring_message e)])
       else (Inl e, Some oenv, pop_ids s1, t))"
    using st
    by (cases "caught e") (simp_all add: sync_try_def sv t(1) keyring_except_def keyring_message_def)
  then show ?thesis
    using has_bin_frame [OF hb] t
    by (simp add: sy split: if_splits sum.splits)
qed

lemma sync_stage_ok:
  assumes "keyring_stage w kwargs self p oenv"
    and "inner_failure w (try_state w kwargs self) p oenv = None"
  shows "env (spawn_kwargs (final (sync w kwargs self)))
         = (env (spawn_kwargs (apply_kwargs w kwargs self)))
             (''PORTAGE_GPG_DIR'' \<mapsto> home oenv, ''PORTAGE_TEMP_GPG_DIR'' \<mapsto> home oenv)
     \<and> map snd (spawned (trace (sync w kwargs self))) = [spawn_kwargs (final (sync w kwargs self))]"
  using assms(1)
proof (rule stage_run)
  fix s1 t1 r oe s3 t3
  assume hb: "has_bin w (apply_kwargs w kwargs self) = (True, s1, t1)"
    and ts: "try_state w kwargs self = pop_ids s1"
    and st: "sync_try w (''--verbose'' \<in> set (emerge_opts s1))
         (''--quiet'' \<in> set (emerge_opts s1)) (pop_ids s1) = (r, oe, s3, t3)"
    and sy: "sync w kwargs self =
         \<lparr>result = sync_finally w oe r, final = s3,
          trace = t1 @ t3 @ (case oe of None \<Rightarrow> [] | Some e \<Rightarrow> [Close e])\<rparr>"
    and sv: "sync_verify w (''--quiet'' \<in> set (emerge_opts s1)) (pop_ids s1)
         = sync_keys w (''--quiet'' \<in> set (emerge_opts s1)) (pop_ids s1) p oenv"
  obtain t where t: "sync_keys w (''--quiet'' \<in> set (emerge_opts s1)) (pop_ids s1) p oenv
        = (None, Some oenv,
           (pop_ids s1)\<lparr>spawn_kwargs := (spawn_kwargs (pop_ids s1))
                   \<lparr>env := (env (spawn_kwargs (pop_ids s1)))
                      (''PORTAGE_GPG_DIR'' \<mapsto> home oenv,
                       ''PORTAGE_TEMP_GPG_DIR'' \<mapsto> home oenv)\<rparr>\<rparr>, t)"
      "written t = []" "spawned t = []" "logged t = []"
    using sync_keys_ok [OF assms(2) [unfolded ts]] by blast
  show ?thesis
    using st has_bin_frame(2,7) [OF hb] t(3)
    by (auto simp add: sync_try_def sv t(1) sy Let_def split: sum.splits if_splits)
qed

text \<open>
  C8, as amended. Verification is active: \<^verbatim>\<open>sync\<close> has reached the inner \<^verbatim>\<open>try\<close>
  block with the keyring \<open>oenv\<close>. Importing the key is reading the key file and
  \<^verbatim>\<open>import_key\<close>. The two variables \<^verbatim>\<open>PORTAGE_GPG_DIR\<close> and \<^verbatim>\<open>PORTAGE_TEMP_GPG_DIR\<close>
  are added to the \<^verbatim>\<open>env\<close> dictionary if and only if import and refresh both
  succeed, both with the value \<^verbatim>\<open>openpgp_env.home\<close>, and the process is then spawned
  with that dictionary; otherwise the dictionary is unchanged and nothing is
  spawned. When import or refresh raises \<open>e\<close>: if \<open>e\<close> is a \<^verbatim>\<open>GematoException\<close> or an
  \<^verbatim>\<open>asyncio.TimeoutError\<close>, the one message written is
  \<^verbatim>\<open>!!! Verification impossible due to keyring problem:\<close> followed by \<open>e\<close>, and the
  body returns \<^verbatim>\<open>(1, False)\<close>; if \<open>e\<close> is of any other kind nothing is written and \<open>e\<close>
  is raised. Either way \<^verbatim>\<open>close\<close> is called, and an exception it raises leaves
  \<^verbatim>\<open>sync\<close> in place of that outcome.
\<close>

theorem keyring_variables:
  assumes "keyring_stage w kwargs self p oenv"
  shows "(inner_failure w (try_state w kwargs self) p oenv = None
           \<longleftrightarrow> (\<exists>f. open_rb w p = Inr f \<and> import_key w oenv f = Inr ()
                    \<and> refresh_keys w (try_state w kwargs self) oenv = Inr ()))
     \<and> env (spawn_kwargs (final (sync w kwargs self)))
         = (if inner_failure w (try_state w kwargs self) p oenv = None
            then (env (spawn_kwargs (apply_kwargs w kwargs self)))
                   (''PORTAGE_GPG_DIR'' \<mapsto> home oenv, ''PORTAGE_TEMP_GPG_DIR'' \<mapsto> home oenv)
            else env (spawn_kwargs (apply_kwargs w kwargs self)))
     \<and> map snd (spawned (trace (sync w kwargs self)))
         = (if inner_failure w (try_state w kwargs self) p oenv = None
            then [spawn_kwargs (final (sync w kwargs self))] else [])
     \<and> (\<forall>e. inner_failure w (try_state w kwargs self) p oenv = Some e
           \<longrightarrow> result (sync w kwargs self)
                 = (case close w oenv of
                      Inl x \<Rightarrow> Inl x
                    | Inr u \<Rightarrow> if caught e then Inr (1, False) else Inl e)
               \<and> written (trace (sync w kwargs self))
                 = (if caught e then [keyring_message e] else []))"
proof -
  have iff: "inner_failure w (try_state w kwargs self) p oenv = None
           \<longleftrightarrow> (\<exists>f. open_rb w p = Inr f \<and> import_key w oenv f = Inr ()
                    \<and> refresh_keys w (try_state w kwargs self) oenv = Inr ())"
    by (auto simp add: inner_failure_def split: sum.splits)
  show ?thesis
  proof (cases "inner_failure w (try_state w kwargs self) p oenv")
    case None
    with sync_stage_ok [OF assms None] iff show ?thesis by simp
  next
    case (Some e)
    with sync_stage_fail [OF assms Some] iff show ?thesis by simp
  qed
qed

text \<open>
  The claim as stated fails: the key file is read, \<^verbatim>\<open>import_key\<close> fails with an
  \<^verbatim>\<open>OSError\<close>, and \<^verbatim>\<open>sync\<close> raises it, with no message written, instead of
  returning \<^verbatim>\<open>(1, False)\<close>.
\<close>

theorem import_oserror_raises:
  "keyring_stage (world0\<lparr>import_key := (\<lambda>e f. Inl (OSError ''[Errno 5] Input/output error''))\<rparr>)
      None self0 ''/usr/share/openpgp-keys/gentoo-release.asc''
      (OpenPGPEnvironment ''/tmp/gemato.0'')
   \<and> open_rb (world0\<lparr>import_key := (\<lambda>e f. Inl (OSError ''[Errno 5] Input/output error''))\<rparr>)
        ''/usr/share/openpgp-keys/gentoo-release.asc'' = Inr ''KEY''
   \<and> import_key (world0\<lparr>import_key := (\<lambda>e f. Inl (OSError ''[Errno 5] Input/output error''))\<rparr>)
        (OpenPGPEnvironment ''/tmp/gemato.0'') ''KEY''
       = Inl (OSError ''[Errno 5] Input/output error'')
   \<and> result (sync (world0\<lparr>import_key :=
          (\<lambda>e f. Inl (OSError ''[Errno 5] Input/output error''))\<rparr>) None self0)
       = Inl (OSError ''[Errno 5] Input/output error'')
   \<and> written (trace (sync (world0\<lparr>import_key :=
          (\<lambda>e f. Inl (OSError ''[Errno 5] Input/output error''))\<rparr>) None self0)) = []"
  by (simp add: eval_defs)

text \<open>
  Success; a key that gemato rejects; a refresh that times out; a rejected key
  followed by a \<^verbatim>\<open>close\<close> that raises.
\<close>

theorem keyring_variables_witness:
  "env (spawn_kwargs (final (sync world0 None self0))) ''PORTAGE_GPG_DIR'' = Some ''/tmp/gemato.0''
   \<and> env (spawn_kwargs (final (sync world0 None self0))) ''PORTAGE_TEMP_GPG_DIR''
       = Some ''/tmp/gemato.0''
   \<and> map snd (spawned (trace (sync world0 None self0))) = [kw0]
   \<and> result (sync (world0\<lparr>import_key := (\<lambda>e f. Inl (GematoException ''bad key''))\<rparr>) None self0)
       = Inr (1, False)
   \<and> written (trace (sync (world0\<lparr>import_key := (\<lambda>e f. Inl (GematoException ''bad key''))\<rparr>)
         None self0))
       = [''!!! Verification impossible due to keyring problem:'' @ [CHR 0x0A] @ ''bad key''
            @ [CHR 0x0A]]
   \<and> env (spawn_kwargs (final
         (sync (world0\<lparr>import_key := (\<lambda>e f. Inl (GematoException ''bad key''))\<rparr>) None self0)))
         ''PORTAGE_GPG_DIR'' = None
   \<and> result (sync (world0\<lparr>refresh_keys := (\<lambda>s e. Inl (TimeoutError ''timed out''))\<rparr>) None self0)
       = Inr (1, False)
   \<and> spawned (trace (sync (world0\<lparr>refresh_keys := (\<lambda>s e. Inl (TimeoutError ''timed out''))\<rparr>)
         None self0)) = []
   \<and> result (sync (world0\<lparr>import_key := (\<lambda>e f. Inl (GematoException ''no gpg'')),
                           close := (\<lambda>e. Inl (GematoException ''no gpg''))\<rparr>) None self0)
       = Inl (GematoException ''no gpg'')"
proof -
  let ?p = "''/usr/share/openpgp-keys/gentoo-release.asc''"
  let ?o = "OpenPGPEnvironment ''/tmp/gemato.0''"
  let ?wi = "world0\<lparr>import_key := (\<lambda>e f. Inl (GematoException ''bad key''))\<rparr>"
  let ?wr = "world0\<lparr>refresh_keys := (\<lambda>s e. Inl (TimeoutError ''timed out''))\<rparr>"
  let ?wc = "world0\<lparr>import_key := (\<lambda>e f. Inl (GematoException ''no gpg'')),
                    close := (\<lambda>e. Inl (GematoException ''no gpg''))\<rparr>"
  have st0: "keyring_stage world0 None self0 ?p ?o"
    and sti: "keyring_stage ?wi None self0 ?p ?o"
    and str: "keyring_stage ?wr None self0 ?p ?o"
    and stc: "keyring_stage ?wc None self0 ?p ?o"
    by (simp_all add: eval_defs)
  have f0: "inner_failure world0 (try_state world0 None self0) ?p ?o = None"
    and fi: "inner_failure ?wi (try_state ?wi None self0) ?p ?o = Some (GematoException ''bad key'')"
    and fr: "inner_failure ?wr (try_state ?wr None self0) ?p ?o = Some (TimeoutError ''timed out'')"
    and fc: "inner_failure ?wc (try_state ?wc None self0) ?p ?o = Some (GematoException ''no gpg'')"
    by (simp_all add: eval_defs)
  have e0: "env (spawn_kwargs (apply_kwargs world0 None self0)) = [''PATH'' \<mapsto> ''/usr/bin'']"
    and ei: "env (spawn_kwargs (apply_kwargs ?wi None self0)) = [''PATH'' \<mapsto> ''/usr/bin'']"
    by (simp_all add: eval_defs)
  have k0: "spawn_kwargs (final (sync world0 None self0)) = kw0"
    by (simp add: eval_defs kw0_def)
  have ci: "close world0 ?o = Inr ()"
    and cc: "close ?wc ?o = Inl (GematoException ''no gpg'')"
    by (simp_all add: world0_def)
  from keyring_variables [OF st0] keyring_variables [OF sti] keyring_variables [OF str]
       keyring_variables [OF stc]
  show ?thesis
    by (simp add: f0 fi fr fc e0 ei k0 ci cc keyring_message_def)
qed

subsection \<open>Exceptions that leave sync\<close>

lemma sync_verify_raises:
  assumes "sync_verify w q s = (Some (Inl e), oe, s', t')"
  shows "(\<exists>s p. get_openpgp_env w s p = Inl e)
     \<or> (\<not> caught e \<and> ((\<exists>p. open_rb w p = Inl e) \<or> (\<exists>oenv f. import_key w oenv f = Inl e)
                        \<or> (\<exists>s oenv. refresh_keys w s oenv = Inl e)))"
  using assms
  by (auto simp add: sync_verify_def sync_keys_def keyring_except_def Let_def
      split: if_splits sum.splits)

lemma sync_try_raises:
  assumes "sync_try w v q s = (Inl e, oe, s', t')"
  shows "(\<exists>s p. get_openpgp_env w s p = Inl e) \<or> (\<exists>c k. spawn w c k = Inl e)
     \<or> (\<not> caught e \<and> ((\<exists>p. open_rb w p = Inl e) \<or> (\<exists>oenv f. import_key w oenv f = Inl e)
                        \<or> (\<exists>s oenv. refresh_keys w s oenv = Inl e)))"
proof -
  obtain r1 oe1 s1 t1 where sv: "sync_verify w q s = (r1, oe1, s1, t1)"
    by (cases "sync_verify w q s") auto
  show ?thesis
  proof (cases r1)
    case None
    with sv assms have "\<exists>c k. spawn w c k = Inl e"
      by (auto simp add: sync_try_def Let_def split: sum.splits if_splits)
    then show ?thesis by blast
  next
    case (Some x)
    with sv assms have "sync_verify w q s = (Some (Inl e), oe1, s1, t1)"
      by (simp add: sync_try_def)
    from sync_verify_raises [OF this] show ?thesis by blast
  qed
qed

lemma sync_try_spawn_raises:
  assumes "sync_try w v q s = (r, oe, s', t')"
    and "spawned t' = [(cmd, k)]" and "spawn w cmd k = Inl e"
  shows "r = Inl e"
proof -
  obtain r1 oe1 s1 t1 where sv: "sync_verify w q s = (r1, oe1, s1, t1)"
    by (cases "sync_verify w q s") auto
  show ?thesis
  proof (cases r1)
    case None
    with sv sync_verify_frame [OF sv] assms show ?thesis
      by (auto simp add: sync_try_def Let_def split: sum.splits if_splits)
  next
    case (Some x)
    with sv sync_verify_frame [OF sv] assms show ?thesis
      by (simp add: sync_try_def)
  qed
qed

lemma sync_get_env_raises:
  assumes "verify_stage w kwargs self p"
    and "get_openpgp_env w (try_state w kwargs self) p = Inl e"
  shows "result (sync w kwargs self) = Inl e"
proof (cases w kwargs self rule: sync_cases)
  case (nobin s1 t1)
  with assms(1) show ?thesis by (simp add: verify_stage_def)
next
  case (run s1 t1 r oe s3 t3)
  have ts: "try_state w kwargs self = pop_ids s1"
    by (simp add: try_state_def run(1))
  have "sync_verify w (''--quiet'' \<in> set (emerge_opts s1)) (pop_ids s1)
      = (Some (Inl e), None, pop_ids s1, [])"
    using assms unfolding verify_stage_def ts by (simp add: sync_verify_def)
  with run(2) have "r = Inl e" "oe = None"
    by (simp_all add: sync_try_def)
  then show ?thesis by (simp add: run(3))
qed

text \<open>
  C3, as amended. \<^verbatim>\<open>sync\<close> does not convert every failure into a result pair. The
  first exception raised while reading the key file, importing or refreshing is
  converted into \<^verbatim>\<open>(1, False)\<close> when it is a \<^verbatim>\<open>GematoException\<close> or an
  \<^verbatim>\<open>asyncio.TimeoutError\<close>, and is raised to the caller when it is of any other kind.
  An exception raised by \<^verbatim>\<open>_get_openpgp_env\<close> or by \<^verbatim>\<open>spawn\<close> (both called outside
  the inner \<^verbatim>\<open>try\<close> block) is raised to the caller, whatever its kind. An exception
  raised by \<^verbatim>\<open>close\<close> in the \<^verbatim>\<open>finally\<close> clause is raised to the caller in place of
  any of these outcomes. No other exception leaves \<^verbatim>\<open>sync\<close>.
\<close>

theorem exceptions_leaving_sync:
  "(result (sync w kwargs self) = Inl e \<longrightarrow>
      (\<exists>s p. get_openpgp_env w s p = Inl e) \<or> (\<exists>c k. spawn w c k = Inl e)
      \<or> (\<exists>oenv. close w oenv = Inl e)
      \<or> (\<not> caught e \<and> ((\<exists>p. open_rb w p = Inl e) \<or> (\<exists>oenv f. import_key w oenv f = Inl e)
                         \<or> (\<exists>s oenv. refresh_keys w s oenv = Inl e))))
   \<and> (keyring_stage w kwargs self p oenv
        \<and> inner_failure w (try_state w kwargs self) p oenv = Some e1
      \<longrightarrow> result (sync w kwargs self)
            = (case close w oenv of
                 Inl x \<Rightarrow> Inl x
               | Inr u \<Rightarrow> if caught e1 then Inr (1, False) else Inl e1))
   \<and> (verify_stage w kwargs self p
        \<and> get_openpgp_env w (try_state w kwargs self) p = Inl e2
      \<longrightarrow> result (sync w kwargs self) = Inl e2)
   \<and> (spawned (trace (sync w kwargs self)) = [(cmd, k)] \<and> spawn w cmd k = Inl e3
      \<longrightarrow> result (sync w kwargs self)
            = (case allocs (trace (sync w kwargs self)) of
                 [] \<Rightarrow> Inl e3
               | o3 # rest \<Rightarrow> (case close w o3 of Inl x \<Rightarrow> Inl x | Inr u \<Rightarrow> Inl e3)))
   \<and> (allocs (trace (sync w kwargs self)) = [o4] \<and> close w o4 = Inl e4
      \<longrightarrow> result (sync w kwargs self) = Inl e4)"
proof (intro conjI impI)
  assume r: "result (sync w kwargs self) = Inl e"
  show "(\<exists>s p. get_openpgp_env w s p = Inl e) \<or> (\<exists>c k. spawn w c k = Inl e)
      \<or> (\<exists>oenv. close w oenv = Inl e)
      \<or> (\<not> caught e \<and> ((\<exists>p. open_rb w p = Inl e) \<or> (\<exists>oenv f. import_key w oenv f = Inl e)
                         \<or> (\<exists>s oenv. refresh_keys w s oenv = Inl e)))"
  proof (cases w kwargs self rule: sync_cases)
    case (nobin s1 t1)
    with r show ?thesis by simp
  next
    case (run s1 t1 r' oe s3 t3)
    from r run(3) have f: "sync_finally w oe r' = Inl e" by simp
    show ?thesis
    proof (cases "r' = Inl e")
      case True
      with run(2) have "sync_try w (''--verbose'' \<in> set (emerge_opts s1))
          (''--quiet'' \<in> set (emerge_opts s1)) (pop_ids s1) = (Inl e, oe, s3, t3)"
        by simp
      from sync_try_raises [OF this] show ?thesis by blast
    next
      case False
      with f have "\<exists>oenv. close w oenv = Inl e"
        by (cases oe) (auto split: sum.splits)
      then show ?thesis by blast
    qed
  qed
next
  assume "keyring_stage w kwargs self p oenv
        \<and> inner_failure w (try_state w kwargs self) p oenv = Some e1"
  then show "result (sync w kwargs self)
            = (case close w oenv of
                 Inl x \<Rightarrow> Inl x
               | Inr u \<Rightarrow> if caught e1 then Inr (1, False) else Inl e1)"
    using sync_stage_fail [of w kwargs self p oenv e1] by simp
next
  assume "verify_stage w kwargs self p
        \<and> get_openpgp_env w (try_state w kwargs self) p = Inl e2"
  then show "result (sync w kwargs self) = Inl e2"
    using sync_get_env_raises [of w kwargs self p e2] by simp
next
  assume a: "spawned (trace (sync w kwargs self)) = [(cmd, k)] \<and> spawn w cmd k = Inl e3"
  show "result (sync w kwargs self)
            = (case allocs (trace (sync w kwargs self)) of
                 [] \<Rightarrow> Inl e3
               | o3 # rest \<Rightarrow> (case close w o3 of Inl x \<Rightarrow> Inl x | Inr u \<Rightarrow> Inl e3))"
  proof (cases w kwargs self rule: sync_cases)
    case (nobin s1 t1)
    with a has_bin_frame(7) [OF nobin(1)] show ?thesis by simp
  next
    case (run s1 t1 r oe s3 t3)
    have sp: "spawned t3 = [(cmd, k)]"
      using a has_bin_frame(7) [OF run(1)] by (simp add: run(3))
    from sync_try_spawn_raises [OF run(2) sp] a have "r = Inl e3" by simp
    with has_bin_frame(5) [OF run(1)] sync_try_frame [OF run(2)] show ?thesis
      by (cases oe) (simp_all add: run(3))
  qed
next
  assume a: "allocs (trace (sync w kwargs self)) = [o4] \<and> close w o4 = Inl e4"
  show "result (sync w kwargs self) = Inl e4"
  proof (cases w kwargs self rule: sync_cases)
    case (nobin s1 t1)
    with a has_bin_frame(5) [OF nobin(1)] show ?thesis by simp
  next
    case (run s1 t1 r oe s3 t3)
    from a has_bin_frame(5) [OF run(1)] sync_try_frame [OF run(2)] show ?thesis
      by (cases oe) (simp_all add: run(3))
  qed
qed

text \<open>
  The claim as stated fails: the key file exists and cannot be read, \<^verbatim>\<open>open\<close> raises
  \<^verbatim>\<open>OSError\<close>, and the exception reaches the caller of \<^verbatim>\<open>sync\<close>.
\<close>

theorem unreadable_key_file_raises:
  "result (sync (world0\<lparr>open_rb := (\<lambda>p. Inl (OSError ''[Errno 13] Permission denied''))\<rparr>)
            None self0)
     = Inl (OSError ''[Errno 13] Permission denied'')"
  by (simp add: eval_defs)

text \<open>
  An input/output error on the key file is raised and a timeout there is converted;
  exceptions of \<^verbatim>\<open>_get_openpgp_env\<close>, of \<^verbatim>\<open>spawn\<close> and of \<^verbatim>\<open>close\<close> are raised, also
  when they are of a kind the inner handler names.
\<close>

theorem exceptions_leaving_sync_witness:
  "result (sync (world0\<lparr>open_rb := (\<lambda>p. Inl (OSError ''[Errno 5] Input/output error''))\<rparr>)
            None self0)
     = Inl (OSError ''[Errno 5] Input/output error'')
   \<and> \<not> caught (OSError ''[Errno 5] Input/output error'')
   \<and> result (sync (world0\<lparr>open_rb := (\<lambda>p. Inl (TimeoutError ''timed out''))\<rparr>) None self0)
     = Inr (1, False)
   \<and> result (sync (world0\<lparr>get_openpgp_env := (\<lambda>s p. Inl (GematoException ''no gpg''))\<rparr>)
            None self0)
     = Inl (GematoException ''no gpg'')
   \<and> result (sync (world0\<lparr>spawn := (\<lambda>c k. Inl (TimeoutError ''spawn''))\<rparr>) None self0)
     = Inl (TimeoutError ''spawn'')
   \<and> result (sync (world0\<lparr>close := (\<lambda>e. Inl (GematoException ''close''))\<rparr>) None self0)
     = Inl (GematoException ''close'')"
proof -
  let ?p = "''/usr/share/openpgp-keys/gentoo-release.asc''"
  let ?o = "OpenPGPEnvironment ''/tmp/gemato.0''"
  let ?cmd = "[Some ''/usr/bin/emerge-webrsync'', Some ''-q'']"
  let ?e = "OSError ''[Errno 5] Input/output error''"
  let ?wo = "world0\<lparr>open_rb := (\<lambda>p. Inl ?e)\<rparr>"
  let ?wt = "world0\<lparr>open_rb := (\<lambda>p. Inl (TimeoutError ''timed out''))\<rparr>"
  let ?wg = "world0\<lparr>get_openpgp_env := (\<lambda>s p. Inl (GematoException ''no gpg''))\<rparr>"
  let ?ws = "world0\<lparr>spawn := (\<lambda>c k. Inl (TimeoutError ''spawn''))\<rparr>"
  let ?wc = "world0\<lparr>close := (\<lambda>e. Inl (GematoException ''close''))\<rparr>"
  have sto: "keyring_stage ?wo None self0 ?p ?o"
    and stt: "keyring_stage ?wt None self0 ?p ?o"
    and stg: "verify_stage ?wg None self0 ?p"
    by (simp_all add: eval_defs)
  have fo: "inner_failure ?wo (try_state ?wo None self0) ?p ?o = Some ?e"
    and ft: "inner_failure ?wt (try_state ?wt None self0) ?p ?o = Some (TimeoutError ''timed out'')"
    by (simp_all add: eval_defs)
  have g: "get_openpgp_env ?wg (try_state ?wg None self0) ?p = Inl (GematoException ''no gpg'')"
    by (simp add: world0_def)
  have sp: "spawned (trace (sync ?ws None self0)) = [(?cmd, kw0)]"
    by (simp add: eval_defs kw0_def)
  have se: "spawn ?ws ?cmd kw0 = Inl (TimeoutError ''spawn'')"
    by (simp add: world0_def)
  have as: "allocs (trace (sync ?ws None self0)) = [?o]"
    and ac: "allocs (trace (sync ?wc None self0)) = [?o]"
    by (simp_all add: eval_defs)
  have c: "close world0 ?o = Inr ()" "close ?wc ?o = Inl (GematoException ''close'')"
    by (simp_all add: world0_def)
  from exceptions_leaving_sync
         [of ?wo None self0 ?e ?p ?o ?e ?e ?cmd kw0 ?e ?o ?e]
       exceptions_leaving_sync
         [of ?wt None self0 ?e ?p ?o "TimeoutError ''timed out''" ?e ?cmd kw0 ?e ?o ?e]
       exceptions_leaving_sync
         [of ?wg None self0 ?e ?p ?o ?e "GematoException ''no gpg''" ?cmd kw0 ?e ?o ?e]
       exceptions_leaving_sync
         [of ?ws None self0 ?e ?p ?o ?e ?e ?cmd kw0 "TimeoutError ''spawn''" ?o ?e]
       exceptions_leaving_sync
         [of ?wc None self0 ?e ?p ?o ?e ?e ?cmd kw0 ?e ?o "GematoException ''close''"]
  show ?thesis
    using sto stt stg fo ft g sp se as ac c by simp
qed

subsection \<open>The substitution in has_bin\<close>

lemma reads_delta:
  "p_bin_command s = ''emerge-delta-webrsync'' \<Longrightarrow>
   has_bin_reads w rs s = (s\<lparr>repo := (if rs = [] then repo s else last rs)\<rparr>, [])"
proof (induction rs arbitrary: s)
  case Nil
  then show ?case by simp
next
  case (Cons r rs)
  have hb: "has_bin w (s\<lparr>repo := r\<rparr>) = (super_has_bin w (s\<lparr>repo := r\<rparr>), s\<lparr>repo := r\<rparr>, [])"
    using Cons.prems by (simp add: has_bin_def)
  show ?case
    using Cons.IH [of "s\<lparr>repo := r\<rparr>"] Cons.prems by (simp add: hb)
qed

lemma reads_once: "length (filter is_find_binary (snd (has_bin_reads w rs s))) \<le> 1"
proof (induction rs arbitrary: s)
  case Nil
  then show ?case by simp
next
  case (Cons r rs)
  show ?case
  proof (cases "p_bin_command s \<noteq> ''emerge-delta-webrsync''
         \<and> opt_enabled (module_specific_options r) ''sync-webrsync-delta''")
    case True
    let ?s' = "s\<lparr>repo := r, p_bin_command := ''emerge-delta-webrsync'',
                    bin_command := find_binary w ''emerge-delta-webrsync'',
                    bin_pkg := ''>=app-portage/emerge-delta-webrsync-3.7.5''\<rparr>"
    have "has_bin w (s\<lparr>repo := r\<rparr>)
        = (super_has_bin w ?s', ?s', [FindBinary ''emerge-delta-webrsync''])"
      using True by (simp add: has_bin_def Let_def)
    moreover have "snd (has_bin_reads w rs ?s') = []"
      using reads_delta [of ?s' w rs] by simp
    ultimately show ?thesis by (cases "has_bin_reads w rs ?s'") simp
  next
    case False
    then have "has_bin w (s\<lparr>repo := r\<rparr>) = (super_has_bin w (s\<lparr>repo := r\<rparr>), s\<lparr>repo := r\<rparr>, [])"
      by (auto simp add: has_bin_def)
    then show ?thesis
      using Cons.IH [of "s\<lparr>repo := r\<rparr>"] by (simp split: prod.splits)
  qed
qed

text \<open>
  C10. Once \<^verbatim>\<open>self._bin_command\<close> is the delta variant, a read of \<open>has_bin\<close> changes
  nothing and looks no binary up, and neither does any sequence of reads, whatever
  the repository options by then: \<open>bin_command\<close> and \<open>bin_pkg\<close> stay as they are.
  A second read directly after a first changes nothing, for every instance. Over
  any sequence of reads of one instance the substitution (the lookup of the delta
  binary) happens at most once.
\<close>

theorem has_bin_substitutes_once:
  "(p_bin_command s = ''emerge-delta-webrsync'' \<longrightarrow>
      has_bin w s = (super_has_bin w s, s, [])
      \<and> p_bin_command (fst (has_bin_reads w rs s)) = p_bin_command s
      \<and> bin_command (fst (has_bin_reads w rs s)) = bin_command s
      \<and> bin_pkg (fst (has_bin_reads w rs s)) = bin_pkg s
      \<and> snd (has_bin_reads w rs s) = [])
   \<and> has_bin w (fst (snd (has_bin w s)))
       = (super_has_bin w (fst (snd (has_bin w s))), fst (snd (has_bin w s)), [])
   \<and> length (filter is_find_binary (snd (has_bin_reads w rs s))) \<le> 1"
proof (intro conjI impI)
  show "has_bin w (fst (snd (has_bin w s)))
       = (super_has_bin w (fst (snd (has_bin w s))), fst (snd (has_bin w s)), [])"
    by (simp add: has_bin_def Let_def)
  show "length (filter is_find_binary (snd (has_bin_reads w rs s))) \<le> 1"
    by (rule reads_once)
qed (simp_all add: reads_delta has_bin_def)

text \<open>An instance after its first read with \<^verbatim>\<open>sync-webrsync-delta = True\<close>, read twice more.\<close>

theorem has_bin_substitutes_once_witness:
  "p_bin_command (fst (snd (has_bin world0
       (self0\<lparr>repo := repo0\<lparr>module_specific_options := [''sync-webrsync-delta'' \<mapsto> ''True'']\<rparr>\<rparr>))))
     = ''emerge-delta-webrsync''
   \<and> bin_command (fst (has_bin_reads world0 [repo0, repo0]
       (fst (snd (has_bin world0
         (self0\<lparr>repo := repo0\<lparr>module_specific_options := [''sync-webrsync-delta'' \<mapsto> ''True'']\<rparr>\<rparr>))))))
     = Some ''/usr/bin/emerge-delta-webrsync''
   \<and> bin_pkg (fst (has_bin_reads world0 [repo0, repo0]
       (fst (snd (has_bin world0
         (self0\<lparr>repo := repo0\<lparr>module_specific_options := [''sync-webrsync-delta'' \<mapsto> ''True'']\<rparr>\<rparr>))))))
     = ''>=app-portage/emerge-delta-webrsync-3.7.5''"
proof -
  let ?s = "fst (snd (has_bin world0
       (self0\<lparr>repo := repo0\<lparr>module_specific_options := [''sync-webrsync-delta'' \<mapsto> ''True'']\<rparr>\<rparr>)))"
  have h: "p_bin_command ?s = ''emerge-delta-webrsync''"
    by (simp add: eval_defs)
  have b: "bin_command ?s = Some ''/usr/bin/emerge-delta-webrsync''"
    "bin_pkg ?s = ''>=app-portage/emerge-delta-webrsync-3.7.5''"
    by (simp_all add: eval_defs)
  from has_bin_substitutes_once [of ?s world0 "[repo0, repo0]"] h b show ?thesis
    by simp
qed

subsection \<open>The exit paths on the concrete setting\<close>

text \<open>
  The ways out of \<^verbatim>\<open>sync\<close> with a keyring allocated: a normal return, a return of
  \<^verbatim>\<open>(1, False)\<close> after a failed import, an exception from the body, and an exception
  from \<^verbatim>\<open>close\<close> itself. Each calls \<^verbatim>\<open>close\<close> once, as its last step.
\<close>

lemma sync_exit_paths:
  "trace (sync world0 None self0)
     = [Alloc (OpenPGPEnvironment ''/tmp/gemato.0''),
        Einfo True ''Using keys from /usr/share/openpgp-keys/gentoo-release.asc'',
        OpenFile ''/usr/share/openpgp-keys/gentoo-release.asc'',
        ImportKey (OpenPGPEnvironment ''/tmp/gemato.0'') ''KEY'',
        RefreshKeys (OpenPGPEnvironment ''/tmp/gemato.0''),
        Spawn [Some ''/usr/bin/emerge-webrsync'', Some ''-q''] kw0,
        Close (OpenPGPEnvironment ''/tmp/gemato.0'')]"
  "closes (trace (sync (world0\<lparr>import_key := (\<lambda>e f. Inl (GematoException ''bad key''))\<rparr>)
       None self0)) = [OpenPGPEnvironment ''/tmp/gemato.0'']"
  "allocs (trace (sync (world0\<lparr>open_rb := (\<lambda>p. Inl (OSError ''denied''))\<rparr>) None self0))
     = [OpenPGPEnvironment ''/tmp/gemato.0'']"
  "closes (trace (sync (world0\<lparr>open_rb := (\<lambda>p. Inl (OSError ''denied''))\<rparr>) None self0))
     = [OpenPGPEnvironment ''/tmp/gemato.0'']"
  "closes (trace (sync (world0\<lparr>close := (\<lambda>e. Inl (OSError ''busy''))\<rparr>) None self0))
     = [OpenPGPEnvironment ''/tmp/gemato.0'']"
  "result (sync (world0\<lparr>close := (\<lambda>e. Inl (OSError ''busy''))\<rparr>) None self0)
     = Inl (OSError ''busy'')"
  by (simp_all add: eval_defs kw0_def)

end
